theory Spec2Isabelle
  imports Complex_Main "HOL-Library.Log_Nat"
begin

section \<open>JavaScript numbers\<close>

text \<open>
  A JavaScript number is an IEEE 754 binary64 value: a rational that the format
  represents, an infinity, or NaN. The two zeros are identified (the program never
  tells them apart: its only divisors are the video's native size, an unsigned
  integer of the DOM, and the literal 2), so a division of a non-zero number by zero
  takes the zero to be positive.

  \<open>fl\<close> rounds a rational to the nearest binary64 value, ties to even: 53 significant
  bits, exponents from -1022 to 1023, subnormal numbers below, and the infinities
  when the rounded magnitude reaches \<open>2 ^ 1024\<close>. \<open>expo x\<close> is the exponent \<open>e\<close> with
  \<open>2 ^ e \<le> \<bar>x\<bar> < 2 ^ (e + 1)\<close>.
\<close>

datatype double = Finite rat | Infinity | NegInfinity | NaN

definition expo :: "rat \<Rightarrow> int" where
  "expo x =
     (let (p, q) = quotient_of \<bar>x\<bar>; d = bitlen p - bitlen q
      in if 2 powi d \<le> \<bar>x\<bar> then d else d - 1)"

definition ulp :: "rat \<Rightarrow> rat" where
  "ulp x = 2 powi (max (expo x) (- 1022) - 52)"

definition nearest_even :: "rat \<Rightarrow> int" where
  "nearest_even y =
     (let f = \<lfloor>y\<rfloor>; r = y - of_int f
      in if r < 1 / 2 then f else if 1 / 2 < r then f + 1 else if even f then f else f + 1)"

definition fl :: "rat \<Rightarrow> double" where
  "fl x =
     (if x = 0 then Finite 0
      else
        let y = of_int (nearest_even (x / ulp x)) * ulp x
        in if 2 ^ 1024 \<le> \<bar>y\<bar> then (if 0 < x then Infinity else NegInfinity) else Finite y)"

text \<open>The conversion of an integer of the DOM to a number.\<close>

definition num :: "nat \<Rightarrow> double" where
  "num n = fl (of_nat n)"

fun positive :: "double \<Rightarrow> bool" where
  "positive (Finite x) = (0 < x)"
| "positive Infinity = True"
| "positive NegInfinity = False"
| "positive NaN = False"

fun nonneg :: "double \<Rightarrow> bool" where
  "nonneg (Finite x) = (0 \<le> x)"
| "nonneg Infinity = True"
| "nonneg NegInfinity = False"
| "nonneg NaN = False"

text \<open>The operators \<open>+\<close>, \<open>*\<close> and \<open>/\<close> of the source.\<close>

fun dadd :: "double \<Rightarrow> double \<Rightarrow> double" where
  "dadd NaN b = NaN"
| "dadd a NaN = NaN"
| "dadd (Finite x) (Finite y) = fl (x + y)"
| "dadd (Finite x) b = b"
| "dadd a (Finite y) = a"
| "dadd a b = (if a = b then a else NaN)"

fun dmul :: "double \<Rightarrow> double \<Rightarrow> double" where
  "dmul NaN b = NaN"
| "dmul a NaN = NaN"
| "dmul (Finite x) (Finite y) = fl (x * y)"
| "dmul a b =
     (if a = Finite 0 \<or> b = Finite 0 then NaN
      else if positive a = positive b then Infinity else NegInfinity)"

fun ddiv :: "double \<Rightarrow> double \<Rightarrow> double" where
  "ddiv NaN b = NaN"
| "ddiv a NaN = NaN"
| "ddiv (Finite x) (Finite y) =
     (if y = 0 then (if x = 0 then NaN else if 0 < x then Infinity else NegInfinity)
      else fl (x / y))"
| "ddiv (Finite x) b = Finite 0"
| "ddiv a (Finite y) = (if positive a = (0 \<le> y) then Infinity else NegInfinity)"
| "ddiv a b = NaN"

section \<open>The data of the component (src/App.tsx)\<close>

text \<open>
  The component \<open>App\<close> of \<open>src/App.tsx\<close> is modelled as a state machine. Its state
  is the React state (\<open>status\<close>, \<open>errorMessage\<close>, \<open>hatPosition\<close>), the refs
  (\<open>animationFrameId\<close>, \<open>detectorRef\<close>, \<open>videoRef\<close>, \<open>canvasRef\<close>), the two DOM
  elements the refs point to, and what the JavaScript runtime holds for the
  component: the registered animation-frame callbacks, the suspended \<open>detectFace\<close>
  calls that await \<open>estimateFaces\<close>, and the point \<open>initialize\<close> is suspended at.

  The arithmetic of the source is kept operation by operation, each operation
  rounding as \<open>fl\<close> does; the sizes the DOM gives (\<open>offsetWidth\<close>, \<open>videoWidth\<close>,
  \<open>canvas.width\<close> and the like) are integers. A state
  setter (\<open>setStatus\<close>, \<open>setErrorMessage\<close>, \<open>setHatPosition\<close>) is modelled as an
  assignment to the state, before and after the unmount alike; the calls of
  \<open>setHatPosition\<close> are kept in the log as well.
\<close>

text \<open>\<open>type Status\<close>, line 19.\<close>

datatype Status = IDLE | INITIALIZING_WEBCAM | LOADING_MODEL | READY | DETECTING | ERROR

text \<open>
  The values \<open>errorMessage\<close> takes: the empty string of line 28 and the three
  (Vietnamese) literals of lines 126, 141 and 96.
\<close>

datatype message =
    NoMessage
  | WebcamMessage
  | ModelMessage
  | DetectionMessage

text \<open>\<open>interface HatPosition\<close>, lines 10 to 17.\<close>

datatype display = DisplayBlock | DisplayNone

record HatPosition =
  hat_top :: double
  hat_left :: double
  hat_width :: double
  hat_height :: double
  hat_transform :: string
  hat_display :: display

text \<open>\<open>face.box\<close>, as destructured in line 68.\<close>

record box =
  xMin :: double
  yMin :: double
  box_width :: double
  box_height :: double

text \<open>
  A media stream is the list of its tracks; a track is live (\<open>True\<close>) until
  \<open>track.stop()\<close> ends it.
\<close>

type_synonym media_stream = "bool list"

text \<open>The properties of the \<open>video\<close> element that the source reads or writes.\<close>

record video_element =
  readyState :: nat
  offsetWidth :: nat
  offsetHeight :: nat
  videoWidth :: nat
  videoHeight :: nat
  srcObject :: "media_stream option"

text \<open>
  The \<open>canvas\<close> element: its resolution and whether \<open>getContext('2d')\<close> returns a
  context (\<open>True\<close>) or \<open>null\<close>.
\<close>

record canvas_element =
  canvas_width :: nat
  canvas_height :: nat
  context2d :: bool

text \<open>
  The calls the component makes to its environment, and the return of the awaited
  \<open>estimateFaces\<close> call (\<open>True\<close>: resolved, \<open>False\<close>: rejected), in the order they
  happen. \<open>SetHatPosition\<close> is the publishing of a placement.
\<close>

datatype call =
    GetUserMedia
  | TfSetBackend
  | TfReady
  | CreateDetector
  | EstimateFaces
  | EstimateFacesReturned bool
  | ConsoleLog nat
  | ConsoleError
  | ClearRect nat nat nat nat
  | SetStrokeStyle string
  | SetLineWidth nat
  | StrokeRect double double double double
  | SetHatPosition HatPosition
  | RequestAnimationFrame nat
  | CancelAnimationFrame nat
  | TrackStop nat

text \<open>The \<open>await\<close> at which \<open>initialize\<close> (lines 108 to 148) is suspended.\<close>

datatype init_phase =
    NotMounted
  | AwaitGetUserMedia
  | AwaitLoadedMetadata
  | AwaitSetBackend
  | AwaitTfReady
  | AwaitCreateDetector
  | InitReturned

record app =
  status :: Status
  errorMessage :: message
  hatPosition :: HatPosition
  animationFrameId :: "nat option"
  detectorRef :: bool
  videoRef :: bool
  canvasRef :: bool
  video :: video_element
  canvas :: canvas_element
  nextFrameId :: nat
  pending :: "nat list"
  inflight :: nat
  initPhase :: init_phase
  unmounted :: bool
  log :: "call list"

text \<open>
  \<open>animationFrameId\<close> is \<open>undefined\<close> (\<open>None\<close>) or a number; \<open>detectorRef\<close>,
  \<open>videoRef\<close> and \<open>canvasRef\<close> say whether \<open>.current\<close> is non-null (there is one
  detector, one video element and one canvas element, so the closures of a suspended
  \<open>detectFace\<close> keep pointing at \<open>video\<close> and \<open>canvas\<close> whatever the refs become).
  \<open>nextFrameId\<close> is the handle the next \<open>requestAnimationFrame\<close> returns (handles
  are non-zero), \<open>pending\<close> the handles of the callbacks that are registered and
  not yet run or cancelled, \<open>inflight\<close> the number of \<open>detectFace\<close> calls suspended
  at line 58.
\<close>

definition initial :: app where
  "initial =
     \<lparr> status = IDLE,
       errorMessage = NoMessage,
       hatPosition =
         \<lparr> hat_top = Finite 0, hat_left = Finite 0, hat_width = Finite 0,
           hat_height = Finite 0,
           hat_transform = ''translate(-50%, -100%)'', hat_display = DisplayNone \<rparr>,
       animationFrameId = None,
       detectorRef = False,
       videoRef = False,
       canvasRef = False,
       video =
         \<lparr> readyState = 0, offsetWidth = 0, offsetHeight = 0, videoWidth = 0,
           videoHeight = 0, srcObject = None \<rparr>,
       canvas = \<lparr> canvas_width = 300, canvas_height = 150, context2d = True \<rparr>,
       nextFrameId = 1,
       pending = [],
       inflight = 0,
       initPhase = NotMounted,
       unmounted = False,
       log = [] \<rparr>"

section \<open>The operations\<close>

definition emit :: "call \<Rightarrow> app \<Rightarrow> app" where
  "emit c s = s\<lparr>log := log s @ [c]\<rparr>"

definition requestAnimationFrame :: "app \<Rightarrow> app" where
  "requestAnimationFrame s =
     (let i = nextFrameId s in
      emit (RequestAnimationFrame i)
        (s\<lparr>animationFrameId := Some i, pending := pending s @ [i], nextFrameId := Suc i\<rparr>))"

definition cancelAnimationFrame :: "nat \<Rightarrow> app \<Rightarrow> app" where
  "cancelAnimationFrame i s =
     emit (CancelAnimationFrame i) (s\<lparr>pending := removeAll i (pending s)\<rparr>)"

text \<open>
  \<open>if (animationFrameId.current) cancelAnimationFrame(animationFrameId.current)\<close>,
  lines 98 to 100 and 153 to 155: \<open>undefined\<close> and \<open>0\<close> are falsy.
\<close>

definition cancelCurrent :: "app \<Rightarrow> app" where
  "cancelCurrent s =
     (case animationFrameId s of
        None \<Rightarrow> s
      | Some i \<Rightarrow> if i = 0 then s else cancelAnimationFrame i s)"

definition setHatPosition :: "HatPosition \<Rightarrow> app \<Rightarrow> app" where
  "setHatPosition p s = emit (SetHatPosition p) (s\<lparr>hatPosition := p\<rparr>)"

text \<open>Lines 64 to 90: the placement computed from \<open>faces[0].box\<close>, and the drawing.\<close>

definition scaleX :: "video_element \<Rightarrow> double" where
  "scaleX v = ddiv (num (offsetWidth v)) (num (videoWidth v))"

definition scaleY :: "video_element \<Rightarrow> double" where
  "scaleY v = ddiv (num (offsetHeight v)) (num (videoHeight v))"

definition placement :: "video_element \<Rightarrow> box \<Rightarrow> HatPosition" where
  "placement v b =
     (let scaledXMin = dmul (xMin b) (scaleX v);
          scaledYMin = dmul (yMin b) (scaleY v);
          scaledWidth = dmul (box_width b) (scaleX v);
          hatWidth = dmul scaledWidth (Finite (3 / 2));
          hatHeight = hatWidth;
          centerX = dadd scaledXMin (ddiv scaledWidth (Finite 2))
      in \<lparr> hat_top = scaledYMin, hat_left = centerX, hat_width = hatWidth,
           hat_height = hatHeight,
           hat_transform = ''translate(-50%, -90%) rotate(-10deg)'',
           hat_display = DisplayBlock \<rparr>)"

definition drawBox :: "video_element \<Rightarrow> box \<Rightarrow> app \<Rightarrow> app" where
  "drawBox v b s =
     emit (StrokeRect (dmul (xMin b) (scaleX v)) (dmul (yMin b) (scaleY v))
             (dmul (box_width b) (scaleX v)) (dmul (box_height b) (scaleY v)))
       (emit (SetLineWidth 4) (emit (SetStrokeStyle ''#00BFFF'') s))"

text \<open>
  \<open>detectFace\<close>, lines 46 to 105, in two parts: from its call to the \<open>await\<close> of line
  58 (or to its return, where it does not reach line 58), and from the return of
  \<open>estimateFaces\<close> to the end. \<open>readable\<close> is the condition of line 47.
\<close>

definition readable :: "app \<Rightarrow> bool" where
  "readable s =
     (detectorRef s \<and> videoRef s \<and> canvasRef s \<and> readyState (video s) = 4)"

definition detectFace :: "app \<Rightarrow> app" where
  "detectFace s =
     (if readable s then
        if \<not> context2d (canvas s) then requestAnimationFrame s
        else emit EstimateFaces (s\<lparr>inflight := Suc (inflight s)\<rparr>)
      else requestAnimationFrame s)"

datatype estimate = Faces "box list" | Rejected

definition detectFace_resume :: "estimate \<Rightarrow> app \<Rightarrow> app" where
  "detectFace_resume r s0 =
     (let s = s0\<lparr>inflight := inflight s0 - 1\<rparr> in
      case r of
        Rejected \<Rightarrow>
          cancelCurrent
            ((emit ConsoleError (emit (EstimateFacesReturned False) s))
               \<lparr>errorMessage := DetectionMessage, status := ERROR\<rparr>)
      | Faces faces \<Rightarrow>
          (let s1 =
                 emit (ClearRect 0 0 (canvas_width (canvas s)) (canvas_height (canvas s)))
                   (emit (ConsoleLog (length faces)) (emit (EstimateFacesReturned True) s));
               s2 =
                 (case faces of
                    face # _ \<Rightarrow>
                      setHatPosition (placement (video s1) face) (drawBox (video s1) face s1)
                  | [] \<Rightarrow> setHatPosition ((hatPosition s1)\<lparr>hat_display := DisplayNone\<rparr>) s1)
           in requestAnimationFrame s2))"

text \<open>
  \<open>handleStart\<close>, lines 163 to 174. \<open>status\<close> is read where the source reads the
  value of the last render; the model reads the state, which is that value once the
  component has rendered again after the last \<open>setStatus\<close>.
\<close>

definition handleStart :: "app \<Rightarrow> app" where
  "handleStart s =
     (if status s = READY \<and> videoRef s \<and> canvasRef s then
        detectFace
          (s\<lparr>canvas :=
                (canvas s)\<lparr>canvas_width := offsetWidth (video s),
                           canvas_height := offsetHeight (video s)\<rparr>,
              status := DETECTING\<rparr>)
      else s)"

text \<open>
  \<open>initialize\<close>, lines 108 to 148, cut at its \<open>await\<close>s: the start (to line 112),
  the return of \<open>getUserMedia\<close> (lines 116 to 123, or the \<open>catch\<close> of lines 124 to
  129), the \<open>loadedmetadata\<close> event, and the three awaited calls of lines 134 to 138
  with their \<open>catch\<close> of lines 139 to 144.
\<close>

definition initialize :: "app \<Rightarrow> app" where
  "initialize s =
     emit GetUserMedia (s\<lparr>status := INITIALIZING_WEBCAM, initPhase := AwaitGetUserMedia\<rparr>)"

definition loadModel :: "app \<Rightarrow> app" where
  "loadModel s = emit TfSetBackend (s\<lparr>status := LOADING_MODEL, initPhase := AwaitSetBackend\<rparr>)"

definition getUserMedia_resolved :: "media_stream \<Rightarrow> app \<Rightarrow> app" where
  "getUserMedia_resolved stream s =
     (if videoRef s then
        s\<lparr>video := (video s)\<lparr>srcObject := Some stream\<rparr>, initPhase := AwaitLoadedMetadata\<rparr>
      else loadModel s)"

definition getUserMedia_rejected :: "app \<Rightarrow> app" where
  "getUserMedia_rejected s =
     (emit ConsoleError s)
       \<lparr>errorMessage := WebcamMessage, status := ERROR, initPhase := InitReturned\<rparr>"

definition model_resolved :: "app \<Rightarrow> app" where
  "model_resolved s =
     (case initPhase s of
        AwaitSetBackend \<Rightarrow> emit TfReady (s\<lparr>initPhase := AwaitTfReady\<rparr>)
      | AwaitTfReady \<Rightarrow> emit CreateDetector (s\<lparr>initPhase := AwaitCreateDetector\<rparr>)
      | AwaitCreateDetector \<Rightarrow>
          s\<lparr>detectorRef := True, status := READY, initPhase := InitReturned\<rparr>
      | _ \<Rightarrow> s)"

definition model_rejected :: "app \<Rightarrow> app" where
  "model_rejected s =
     (emit ConsoleError s)
       \<lparr>errorMessage := ModelMessage, status := ERROR, initPhase := InitReturned\<rparr>"

text \<open>The cleanup of the effect, lines 152 to 159.\<close>

definition stopTracks :: "app \<Rightarrow> app" where
  "stopTracks s =
     (case srcObject (video s) of
        None \<Rightarrow> s
      | Some tracks \<Rightarrow>
          s\<lparr>video := (video s)\<lparr>srcObject := Some (map (\<lambda>_. False) tracks)\<rparr>,
            log := log s @ map TrackStop [0..<length tracks]\<rparr>)"

definition cleanup :: "app \<Rightarrow> app" where
  "cleanup s =
     (let s1 = cancelCurrent s in
      if videoRef s1 \<and> srcObject (video s1) \<noteq> None then stopTracks s1 else s1)"

section \<open>The runs of the component\<close>

text \<open>
  What the environment does to the component: React mounts it (the refs are attached,
  the effect runs) and unmounts it (the cleanup runs; when React sets the refs back
  to \<open>null\<close> is left to the environment, as the event \<open>DetachRefs\<close>), the awaited
  calls return, the button is clicked, the browser runs a registered animation-frame
  callback, and the video and the canvas change.
\<close>

datatype event =
    Mount
  | GetUserMediaResolved media_stream
  | GetUserMediaRejected
  | LoadedMetadata
  | ModelResolved
  | ModelRejected
  | ClickStart
  | AnimationFrame nat
  | EstimateFacesResolved "box list"
  | EstimateFacesRejected
  | Unmount
  | DetachRefs
  | VideoChanged nat nat nat nat nat
  | ContextChanged bool

definition awaitingModel :: "app \<Rightarrow> bool" where
  "awaitingModel s =
     (initPhase s = AwaitSetBackend \<or> initPhase s = AwaitTfReady \<or>
      initPhase s = AwaitCreateDetector)"

definition isMounted :: "app \<Rightarrow> bool" where
  "isMounted s = (initPhase s \<noteq> NotMounted \<and> \<not> unmounted s)"

text \<open>One event; \<open>None\<close> where the event cannot happen in the state.\<close>

fun step :: "event \<Rightarrow> app \<Rightarrow> app option" where
  "step Mount s =
     (if initPhase s = NotMounted then
        Some (initialize (s\<lparr>videoRef := True, canvasRef := True\<rparr>))
      else None)"
| "step (GetUserMediaResolved stream) s =
     (if initPhase s = AwaitGetUserMedia then Some (getUserMedia_resolved stream s) else None)"
| "step GetUserMediaRejected s =
     (if initPhase s = AwaitGetUserMedia then Some (getUserMedia_rejected s) else None)"
| "step LoadedMetadata s =
     (if initPhase s = AwaitLoadedMetadata then Some (loadModel s) else None)"
| "step ModelResolved s = (if awaitingModel s then Some (model_resolved s) else None)"
| "step ModelRejected s = (if awaitingModel s then Some (model_rejected s) else None)"
| "step ClickStart s = (if isMounted s then Some (handleStart s) else None)"
| "step (AnimationFrame i) s =
     (if i \<in> set (pending s) then
        Some (detectFace (s\<lparr>pending := removeAll i (pending s)\<rparr>))
      else None)"
| "step (EstimateFacesResolved faces) s =
     (if 0 < inflight s then Some (detectFace_resume (Faces faces) s) else None)"
| "step EstimateFacesRejected s =
     (if 0 < inflight s then Some (detectFace_resume Rejected s) else None)"
| "step Unmount s = (if isMounted s then Some (cleanup (s\<lparr>unmounted := True\<rparr>)) else None)"
| "step DetachRefs s = Some (s\<lparr>videoRef := False, canvasRef := False\<rparr>)"
| "step (VideoChanged r ow oh vw vh) s =
     Some (s\<lparr>video :=
               (video s)\<lparr>readyState := r, offsetWidth := ow, offsetHeight := oh,
                          videoWidth := vw, videoHeight := vh\<rparr>\<rparr>)"
| "step (ContextChanged c) s = Some (s\<lparr>canvas := (canvas s)\<lparr>context2d := c\<rparr>\<rparr>)"

fun run :: "event list \<Rightarrow> app \<Rightarrow> app option" where
  "run [] s = Some s"
| "run (e # es) s = (case step e s of None \<Rightarrow> None | Some s' \<Rightarrow> run es s')"

section \<open>Reading the log\<close>

text \<open>The handles scheduled, the placements published and the tracks stopped, in order.\<close>

fun scheduled :: "call list \<Rightarrow> nat list" where
  "scheduled [] = []"
| "scheduled (RequestAnimationFrame i # cs) = i # scheduled cs"
| "scheduled (_ # cs) = scheduled cs"

fun published :: "call list \<Rightarrow> HatPosition list" where
  "published [] = []"
| "published (SetHatPosition p # cs) = p # published cs"
| "published (_ # cs) = published cs"

fun stops :: "call list \<Rightarrow> nat list" where
  "stops [] = []"
| "stops (TrackStop k # cs) = k # stops cs"
| "stops (_ # cs) = stops cs"

definition detections :: "call list \<Rightarrow> nat" where
  "detections cs = count_list cs EstimateFaces"

text \<open>
  The discipline of the ticks, read off the log: a detection call starts only when
  none is open and no placement is owed; a call that resolved is followed by one
  publishing; and a tick is scheduled only when no call is open and no placement is
  owed. \<open>None\<close> is a log that breaks it.
\<close>

datatype tick_state = Free | Busy | Publishing

fun tick_step :: "tick_state option \<Rightarrow> call \<Rightarrow> tick_state option" where
  "tick_step None c = None"
| "tick_step (Some q) EstimateFaces = (if q = Free then Some Busy else None)"
| "tick_step (Some q) (EstimateFacesReturned ok) =
     (if q = Busy then Some (if ok then Publishing else Free) else None)"
| "tick_step (Some q) (SetHatPosition p) = (if q = Publishing then Some Free else None)"
| "tick_step (Some q) (RequestAnimationFrame i) = (if q = Free then Some Free else None)"
| "tick_step (Some q) c = Some q"

definition serialized :: "call list \<Rightarrow> tick_state option" where
  "serialized cs = foldl tick_step (Some Free) cs"

section \<open>Invariants of the runs\<close>

text \<open>
  At most one tick exists at a time, scheduled or suspended in its detection call, and
  a scheduled one is the one \<open>animationFrameId\<close> names; ticks exist only while
  detecting, and \<open>initialize\<close> has returned before the status is \<open>READY\<close> or later.
\<close>

definition one_tick :: "app \<Rightarrow> bool" where
  "one_tick s =
     (inflight s + length (pending s) \<le> 1 \<and>
      nextFrameId s \<noteq> 0 \<and>
      list_all (\<lambda>i. i \<noteq> 0 \<and> animationFrameId s = Some i) (pending s) \<and>
      (status s \<noteq> DETECTING \<longrightarrow> inflight s = 0 \<and> pending s = []) \<and>
      (initPhase s \<noteq> InitReturned \<longrightarrow>
         status s \<noteq> READY \<and> status s \<noteq> DETECTING \<and> status s \<noteq> ERROR))"

text \<open>
  The log follows the discipline, and the state agrees with it: a call is open in the
  log exactly when a \<open>detectFace\<close> is suspended, no track is stopped before the
  cleanup, and \<open>hatPosition\<close> is the placement published last.
\<close>

definition log_ok :: "app \<Rightarrow> bool" where
  "log_ok s =
     (serialized (log s) = Some (if inflight s = 0 then Free else Busy) \<and>
      (\<not> unmounted s \<longrightarrow> stops (log s) = []) \<and>
      hatPosition s = last (hatPosition initial # published (log s)))"

text \<open>
  Before \<open>initialize\<close> returns there is no detector, no tick and no detection; before
  \<open>getUserMedia\<close> returns, \<open>createDetector\<close> has not been called and the video has no
  stream; and the detector is there when the status is \<open>READY\<close> or \<open>DETECTING\<close>.
\<close>

definition loading :: "app \<Rightarrow> bool" where
  "loading s =
     (\<not> detectorRef s \<and> pending s = [] \<and> inflight s = 0 \<and>
      detections (log s) = 0 \<and> scheduled (log s) = [])"

definition init_ok :: "app \<Rightarrow> bool" where
  "init_ok s =
     ((initPhase s \<noteq> InitReturned \<longrightarrow> loading s) \<and>
      (initPhase s = NotMounted \<or> initPhase s = AwaitGetUserMedia \<longrightarrow>
         count_list (log s) CreateDetector = 0 \<and> srcObject (video s) = None) \<and>
      (status s = READY \<or> status s = DETECTING \<longrightarrow> detectorRef s))"

text \<open>
  A component that has failed: \<open>initialize\<close> has returned, the status is \<open>ERROR\<close>, no
  tick is scheduled and no detection call is open.
\<close>

definition halted :: "app \<Rightarrow> bool" where
  "halted s =
     (status s = ERROR \<and> initPhase s = InitReturned \<and> pending s = [] \<and> inflight s = 0)"

section \<open>Sample runs\<close>

text \<open>
  The state after a run from the initial state (the initial state itself where the
  run is not possible).
\<close>

definition after :: "event list \<Rightarrow> app" where
  "after evs = (case run evs initial of None \<Rightarrow> initial | Some s \<Rightarrow> s)"

text \<open>
  A start with one camera track, a 1280 x 720 stream shown at 640 x 360 and the video
  at \<open>readyState\<close> \<open>r\<close>: the component mounts, the camera and the model load, and the
  button is clicked.
\<close>

definition startup :: "nat \<Rightarrow> event list" where
  "startup r =
     [Mount, GetUserMediaResolved [True], VideoChanged r 640 360 1280 720, LoadedMetadata,
      ModelResolved, ModelResolved, ModelResolved, ClickStart]"

definition sample_face :: box where
  "sample_face =
     \<lparr> xMin = Finite 100, yMin = Finite 50, box_width = Finite 200,
       box_height = Finite 200 \<rparr>"

text \<open>
  The same start, then the video shown at 640 x 480 for a 480 x 360 stream (so that both
  scale factors are the double nearest to 4 / 3), and a face box at \<open>xMin = 7\<close> of
  width 1.
\<close>

definition narrow_face :: box where
  "narrow_face =
     \<lparr> xMin = Finite 7, yMin = Finite 0, box_width = Finite 1, box_height = Finite 1 \<rparr>"

definition enlarged :: "event list" where
  "enlarged = startup 4 @ [VideoChanged 4 640 480 480 360]"

section \<open>Facts about the log\<close>

lemma scheduled_append: "scheduled (xs @ ys) = scheduled xs @ scheduled ys"
  by (induction xs rule: scheduled.induct) simp_all

lemma published_append: "published (xs @ ys) = published xs @ published ys"
  by (induction xs rule: published.induct) simp_all

lemma stops_append: "stops (xs @ ys) = stops xs @ stops ys"
  by (induction xs rule: stops.induct) simp_all

lemma detections_append: "detections (xs @ ys) = detections xs + detections ys"
  by (simp add: detections_def)

lemma detections_simps:
  "detections [] = 0"
  "detections (c # cs) = (if c = EstimateFaces then Suc (detections cs) else detections cs)"
  by (simp_all add: detections_def)

lemma serialized_append: "serialized (xs @ ys) = foldl tick_step (serialized xs) ys"
  by (simp add: serialized_def)

lemma tick_step_other:
  "tick_step q GetUserMedia = q"
  "tick_step q TfSetBackend = q"
  "tick_step q TfReady = q"
  "tick_step q CreateDetector = q"
  "tick_step q (ConsoleLog n) = q"
  "tick_step q ConsoleError = q"
  "tick_step q (ClearRect x y w h) = q"
  "tick_step q (SetStrokeStyle style) = q"
  "tick_step q (SetLineWidth l) = q"
  "tick_step q (StrokeRect a b c d) = q"
  "tick_step q (CancelAnimationFrame i) = q"
  "tick_step q (TrackStop k) = q"
  by (cases q; simp)+

lemma TrackStop_log:
  "published (map TrackStop ks) = []"
  "scheduled (map TrackStop ks) = []"
  "stops (map TrackStop ks) = ks"
  "detections (map TrackStop ks) = 0"
  "count_list (map TrackStop ks) CreateDetector = 0"
  "foldl tick_step q (map TrackStop ks) = q"
  by (induction ks) (simp_all add: detections_simps tick_step_other)

lemmas log_simps =
  scheduled_append published_append stops_append detections_append serialized_append
  tick_step_other TrackStop_log

section \<open>What each operation changes\<close>

lemma emit_fields:
  "status (emit c s) = status s"
  "errorMessage (emit c s) = errorMessage s"
  "hatPosition (emit c s) = hatPosition s"
  "animationFrameId (emit c s) = animationFrameId s"
  "detectorRef (emit c s) = detectorRef s"
  "videoRef (emit c s) = videoRef s"
  "canvasRef (emit c s) = canvasRef s"
  "video (emit c s) = video s"
  "canvas (emit c s) = canvas s"
  "nextFrameId (emit c s) = nextFrameId s"
  "pending (emit c s) = pending s"
  "inflight (emit c s) = inflight s"
  "initPhase (emit c s) = initPhase s"
  "unmounted (emit c s) = unmounted s"
  "published (log (emit c s)) = published (log s) @ published [c]"
  "scheduled (log (emit c s)) = scheduled (log s) @ scheduled [c]"
  "stops (log (emit c s)) = stops (log s) @ stops [c]"
  "detections (log (emit c s)) = detections (log s) + detections [c]"
  "count_list (log (emit c s)) CreateDetector = count_list (log s) CreateDetector + count_list [c] CreateDetector"
  "serialized (log (emit c s)) = tick_step (serialized (log s)) c"
  by (simp_all add: emit_def log_simps)

lemma requestAnimationFrame_fields:
  "status (requestAnimationFrame s) = status s"
  "errorMessage (requestAnimationFrame s) = errorMessage s"
  "hatPosition (requestAnimationFrame s) = hatPosition s"
  "animationFrameId (requestAnimationFrame s) = Some (nextFrameId s)"
  "detectorRef (requestAnimationFrame s) = detectorRef s"
  "videoRef (requestAnimationFrame s) = videoRef s"
  "canvasRef (requestAnimationFrame s) = canvasRef s"
  "video (requestAnimationFrame s) = video s"
  "canvas (requestAnimationFrame s) = canvas s"
  "nextFrameId (requestAnimationFrame s) = Suc (nextFrameId s)"
  "pending (requestAnimationFrame s) = pending s @ [nextFrameId s]"
  "inflight (requestAnimationFrame s) = inflight s"
  "initPhase (requestAnimationFrame s) = initPhase s"
  "unmounted (requestAnimationFrame s) = unmounted s"
  "published (log (requestAnimationFrame s)) = published (log s)"
  "scheduled (log (requestAnimationFrame s)) = scheduled (log s) @ [nextFrameId s]"
  "stops (log (requestAnimationFrame s)) = stops (log s)"
  "detections (log (requestAnimationFrame s)) = detections (log s)"
  "count_list (log (requestAnimationFrame s)) CreateDetector = count_list (log s) CreateDetector"
  "serialized (log (requestAnimationFrame s)) = tick_step (serialized (log s)) (RequestAnimationFrame (nextFrameId s))"
  by (simp_all add: requestAnimationFrame_def Let_def emit_def log_simps detections_simps)

lemma cancelCurrent_fields:
  "status (cancelCurrent s) = status s"
  "errorMessage (cancelCurrent s) = errorMessage s"
  "hatPosition (cancelCurrent s) = hatPosition s"
  "animationFrameId (cancelCurrent s) = animationFrameId s"
  "detectorRef (cancelCurrent s) = detectorRef s"
  "videoRef (cancelCurrent s) = videoRef s"
  "canvasRef (cancelCurrent s) = canvasRef s"
  "video (cancelCurrent s) = video s"
  "canvas (cancelCurrent s) = canvas s"
  "nextFrameId (cancelCurrent s) = nextFrameId s"
  "inflight (cancelCurrent s) = inflight s"
  "initPhase (cancelCurrent s) = initPhase s"
  "unmounted (cancelCurrent s) = unmounted s"
  "published (log (cancelCurrent s)) = published (log s)"
  "scheduled (log (cancelCurrent s)) = scheduled (log s)"
  "stops (log (cancelCurrent s)) = stops (log s)"
  "detections (log (cancelCurrent s)) = detections (log s)"
  "count_list (log (cancelCurrent s)) CreateDetector = count_list (log s) CreateDetector"
  "serialized (log (cancelCurrent s)) = serialized (log s)"
  by (simp_all add: cancelCurrent_def cancelAnimationFrame_def emit_def log_simps detections_simps
      split: option.split)

lemma removeAll_current: "list_all (\<lambda>j. P j \<and> i = j) xs \<Longrightarrow> removeAll i xs = []"
  by (induction xs) auto

lemma cancelCurrent_idle: "pending s = [] \<Longrightarrow> pending (cancelCurrent s) = []"
  by (simp add: cancelCurrent_def cancelAnimationFrame_def emit_def split: option.split)

lemma cancelCurrent_pending:
  assumes "list_all (\<lambda>i. i \<noteq> 0 \<and> animationFrameId s = Some i) (pending s)"
  shows "pending (cancelCurrent s) = []"
proof (cases "pending s")
  case Nil
  then show ?thesis by (rule cancelCurrent_idle)
next
  case (Cons i xs)
  with assms have "animationFrameId s = Some i" and "i \<noteq> 0" by simp_all
  moreover from this assms have "removeAll i (pending s) = []"
    by (simp add: removeAll_current)
  ultimately show ?thesis
    by (simp add: cancelCurrent_def cancelAnimationFrame_def emit_def)
qed

lemma setHatPosition_fields:
  "status (setHatPosition p s) = status s"
  "errorMessage (setHatPosition p s) = errorMessage s"
  "hatPosition (setHatPosition p s) = p"
  "animationFrameId (setHatPosition p s) = animationFrameId s"
  "detectorRef (setHatPosition p s) = detectorRef s"
  "videoRef (setHatPosition p s) = videoRef s"
  "canvasRef (setHatPosition p s) = canvasRef s"
  "video (setHatPosition p s) = video s"
  "canvas (setHatPosition p s) = canvas s"
  "nextFrameId (setHatPosition p s) = nextFrameId s"
  "pending (setHatPosition p s) = pending s"
  "inflight (setHatPosition p s) = inflight s"
  "initPhase (setHatPosition p s) = initPhase s"
  "unmounted (setHatPosition p s) = unmounted s"
  "published (log (setHatPosition p s)) = published (log s) @ [p]"
  "scheduled (log (setHatPosition p s)) = scheduled (log s)"
  "stops (log (setHatPosition p s)) = stops (log s)"
  "detections (log (setHatPosition p s)) = detections (log s)"
  "count_list (log (setHatPosition p s)) CreateDetector = count_list (log s) CreateDetector"
  "serialized (log (setHatPosition p s)) = tick_step (serialized (log s)) (SetHatPosition p)"
  by (simp_all add: setHatPosition_def emit_def log_simps detections_simps)

lemma drawBox_fields:
  "status (drawBox v b s) = status s"
  "errorMessage (drawBox v b s) = errorMessage s"
  "hatPosition (drawBox v b s) = hatPosition s"
  "animationFrameId (drawBox v b s) = animationFrameId s"
  "detectorRef (drawBox v b s) = detectorRef s"
  "videoRef (drawBox v b s) = videoRef s"
  "canvasRef (drawBox v b s) = canvasRef s"
  "video (drawBox v b s) = video s"
  "canvas (drawBox v b s) = canvas s"
  "nextFrameId (drawBox v b s) = nextFrameId s"
  "pending (drawBox v b s) = pending s"
  "inflight (drawBox v b s) = inflight s"
  "initPhase (drawBox v b s) = initPhase s"
  "unmounted (drawBox v b s) = unmounted s"
  "published (log (drawBox v b s)) = published (log s)"
  "scheduled (log (drawBox v b s)) = scheduled (log s)"
  "stops (log (drawBox v b s)) = stops (log s)"
  "detections (log (drawBox v b s)) = detections (log s)"
  "count_list (log (drawBox v b s)) CreateDetector = count_list (log s) CreateDetector"
  "serialized (log (drawBox v b s)) = serialized (log s)"
  by (simp_all add: drawBox_def emit_def log_simps detections_simps)

lemma detectFace_fields:
  "status (detectFace s) = status s"
  "errorMessage (detectFace s) = errorMessage s"
  "hatPosition (detectFace s) = hatPosition s"
  "animationFrameId (detectFace s) = (if readable s \<and> context2d (canvas s) then animationFrameId s else Some (nextFrameId s))"
  "detectorRef (detectFace s) = detectorRef s"
  "videoRef (detectFace s) = videoRef s"
  "canvasRef (detectFace s) = canvasRef s"
  "video (detectFace s) = video s"
  "canvas (detectFace s) = canvas s"
  "nextFrameId (detectFace s) = (if readable s \<and> context2d (canvas s) then nextFrameId s else Suc (nextFrameId s))"
  "pending (detectFace s) = (if readable s \<and> context2d (canvas s) then pending s else pending s @ [nextFrameId s])"
  "inflight (detectFace s) = (if readable s \<and> context2d (canvas s) then Suc (inflight s) else inflight s)"
  "initPhase (detectFace s) = initPhase s"
  "unmounted (detectFace s) = unmounted s"
  "published (log (detectFace s)) = published (log s)"
  "scheduled (log (detectFace s)) = (if readable s \<and> context2d (canvas s) then scheduled (log s) else scheduled (log s) @ [nextFrameId s])"
  "stops (log (detectFace s)) = stops (log s)"
  "detections (log (detectFace s)) = (if readable s \<and> context2d (canvas s) then Suc (detections (log s)) else detections (log s))"
  "count_list (log (detectFace s)) CreateDetector = count_list (log s) CreateDetector"
  "serialized (log (detectFace s)) = tick_step (serialized (log s))
       (if readable s \<and> context2d (canvas s) then EstimateFaces else RequestAnimationFrame (nextFrameId s))"
  by (simp_all add: detectFace_def requestAnimationFrame_fields emit_def log_simps detections_simps)

lemma resume_Faces_fields:
  "status (detectFace_resume (Faces faces) s) = status s"
  "errorMessage (detectFace_resume (Faces faces) s) = errorMessage s"
  "hatPosition (detectFace_resume (Faces faces) s) = 
     (case faces of [] \<Rightarrow> (hatPosition s)\<lparr>hat_display := DisplayNone\<rparr> | face # _ \<Rightarrow> placement (video s) face)"
  "animationFrameId (detectFace_resume (Faces faces) s) = Some (nextFrameId s)"
  "detectorRef (detectFace_resume (Faces faces) s) = detectorRef s"
  "videoRef (detectFace_resume (Faces faces) s) = videoRef s"
  "canvasRef (detectFace_resume (Faces faces) s) = canvasRef s"
  "video (detectFace_resume (Faces faces) s) = video s"
  "canvas (detectFace_resume (Faces faces) s) = canvas s"
  "nextFrameId (detectFace_resume (Faces faces) s) = Suc (nextFrameId s)"
  "pending (detectFace_resume (Faces faces) s) = pending s @ [nextFrameId s]"
  "inflight (detectFace_resume (Faces faces) s) = inflight s - 1"
  "initPhase (detectFace_resume (Faces faces) s) = initPhase s"
  "unmounted (detectFace_resume (Faces faces) s) = unmounted s"
  "published (log (detectFace_resume (Faces faces) s)) = published (log s) @
     [(case faces of [] \<Rightarrow> (hatPosition s)\<lparr>hat_display := DisplayNone\<rparr> | face # _ \<Rightarrow> placement (video s) face)]"
  "scheduled (log (detectFace_resume (Faces faces) s)) = scheduled (log s) @ [nextFrameId s]"
  "stops (log (detectFace_resume (Faces faces) s)) = stops (log s)"
  "detections (log (detectFace_resume (Faces faces) s)) = detections (log s)"
  "count_list (log (detectFace_resume (Faces faces) s)) CreateDetector = count_list (log s) CreateDetector"
  by (simp_all add: detectFace_resume_def Let_def requestAnimationFrame_fields
      setHatPosition_fields drawBox_fields emit_fields detections_simps split: list.split)

lemma resume_Faces_serialized:
  "serialized (log s) = Some Busy \<Longrightarrow>
   serialized (log (detectFace_resume (Faces faces) s)) = Some Free"
  by (simp add: detectFace_resume_def Let_def requestAnimationFrame_fields
      setHatPosition_fields drawBox_fields emit_fields tick_step_other split: list.split)

lemma resume_Rejected_fields:
  "status (detectFace_resume Rejected s) = ERROR"
  "errorMessage (detectFace_resume Rejected s) = DetectionMessage"
  "hatPosition (detectFace_resume Rejected s) = hatPosition s"
  "animationFrameId (detectFace_resume Rejected s) = animationFrameId s"
  "detectorRef (detectFace_resume Rejected s) = detectorRef s"
  "videoRef (detectFace_resume Rejected s) = videoRef s"
  "canvasRef (detectFace_resume Rejected s) = canvasRef s"
  "video (detectFace_resume Rejected s) = video s"
  "canvas (detectFace_resume Rejected s) = canvas s"
  "nextFrameId (detectFace_resume Rejected s) = nextFrameId s"
  "inflight (detectFace_resume Rejected s) = inflight s - 1"
  "initPhase (detectFace_resume Rejected s) = initPhase s"
  "unmounted (detectFace_resume Rejected s) = unmounted s"
  "published (log (detectFace_resume Rejected s)) = published (log s)"
  "scheduled (log (detectFace_resume Rejected s)) = scheduled (log s)"
  "stops (log (detectFace_resume Rejected s)) = stops (log s)"
  "detections (log (detectFace_resume Rejected s)) = detections (log s)"
  "count_list (log (detectFace_resume Rejected s)) CreateDetector = count_list (log s) CreateDetector"
  "serialized (log (detectFace_resume Rejected s)) = tick_step (serialized (log s)) (EstimateFacesReturned False)"
  by (simp_all add: detectFace_resume_def Let_def cancelCurrent_fields emit_def log_simps
      detections_simps)

lemma resume_Rejected_pending:
  "pending s = [] \<Longrightarrow> pending (detectFace_resume Rejected s) = []"
  by (simp add: detectFace_resume_def Let_def cancelCurrent_idle emit_def)

lemma initialize_fields:
  "status (initialize s) = INITIALIZING_WEBCAM"
  "errorMessage (initialize s) = errorMessage s"
  "hatPosition (initialize s) = hatPosition s"
  "animationFrameId (initialize s) = animationFrameId s"
  "detectorRef (initialize s) = detectorRef s"
  "videoRef (initialize s) = videoRef s"
  "canvasRef (initialize s) = canvasRef s"
  "video (initialize s) = video s"
  "canvas (initialize s) = canvas s"
  "nextFrameId (initialize s) = nextFrameId s"
  "pending (initialize s) = pending s"
  "inflight (initialize s) = inflight s"
  "initPhase (initialize s) = AwaitGetUserMedia"
  "unmounted (initialize s) = unmounted s"
  "published (log (initialize s)) = published (log s)"
  "scheduled (log (initialize s)) = scheduled (log s)"
  "stops (log (initialize s)) = stops (log s)"
  "detections (log (initialize s)) = detections (log s)"
  "count_list (log (initialize s)) CreateDetector = count_list (log s) CreateDetector"
  "serialized (log (initialize s)) = serialized (log s)"
  by (simp_all add: initialize_def emit_def log_simps detections_simps)

lemma loadModel_fields:
  "status (loadModel s) = LOADING_MODEL"
  "errorMessage (loadModel s) = errorMessage s"
  "hatPosition (loadModel s) = hatPosition s"
  "animationFrameId (loadModel s) = animationFrameId s"
  "detectorRef (loadModel s) = detectorRef s"
  "videoRef (loadModel s) = videoRef s"
  "canvasRef (loadModel s) = canvasRef s"
  "video (loadModel s) = video s"
  "canvas (loadModel s) = canvas s"
  "nextFrameId (loadModel s) = nextFrameId s"
  "pending (loadModel s) = pending s"
  "inflight (loadModel s) = inflight s"
  "initPhase (loadModel s) = AwaitSetBackend"
  "unmounted (loadModel s) = unmounted s"
  "published (log (loadModel s)) = published (log s)"
  "scheduled (log (loadModel s)) = scheduled (log s)"
  "stops (log (loadModel s)) = stops (log s)"
  "detections (log (loadModel s)) = detections (log s)"
  "count_list (log (loadModel s)) CreateDetector = count_list (log s) CreateDetector"
  "serialized (log (loadModel s)) = serialized (log s)"
  by (simp_all add: loadModel_def emit_def log_simps detections_simps)

lemma getUserMedia_resolved_fields:
  "status (getUserMedia_resolved stream s) = (if videoRef s then status s else LOADING_MODEL)"
  "errorMessage (getUserMedia_resolved stream s) = errorMessage s"
  "hatPosition (getUserMedia_resolved stream s) = hatPosition s"
  "animationFrameId (getUserMedia_resolved stream s) = animationFrameId s"
  "detectorRef (getUserMedia_resolved stream s) = detectorRef s"
  "videoRef (getUserMedia_resolved stream s) = videoRef s"
  "canvasRef (getUserMedia_resolved stream s) = canvasRef s"
  "video (getUserMedia_resolved stream s) = (if videoRef s then (video s)\<lparr>srcObject := Some stream\<rparr> else video s)"
  "canvas (getUserMedia_resolved stream s) = canvas s"
  "nextFrameId (getUserMedia_resolved stream s) = nextFrameId s"
  "pending (getUserMedia_resolved stream s) = pending s"
  "inflight (getUserMedia_resolved stream s) = inflight s"
  "initPhase (getUserMedia_resolved stream s) = (if videoRef s then AwaitLoadedMetadata else AwaitSetBackend)"
  "unmounted (getUserMedia_resolved stream s) = unmounted s"
  "published (log (getUserMedia_resolved stream s)) = published (log s)"
  "scheduled (log (getUserMedia_resolved stream s)) = scheduled (log s)"
  "stops (log (getUserMedia_resolved stream s)) = stops (log s)"
  "detections (log (getUserMedia_resolved stream s)) = detections (log s)"
  "count_list (log (getUserMedia_resolved stream s)) CreateDetector = count_list (log s) CreateDetector"
  "serialized (log (getUserMedia_resolved stream s)) = serialized (log s)"
  by (simp_all add: getUserMedia_resolved_def loadModel_fields)

lemma getUserMedia_rejected_fields:
  "status (getUserMedia_rejected s) = ERROR"
  "errorMessage (getUserMedia_rejected s) = WebcamMessage"
  "hatPosition (getUserMedia_rejected s) = hatPosition s"
  "animationFrameId (getUserMedia_rejected s) = animationFrameId s"
  "detectorRef (getUserMedia_rejected s) = detectorRef s"
  "videoRef (getUserMedia_rejected s) = videoRef s"
  "canvasRef (getUserMedia_rejected s) = canvasRef s"
  "video (getUserMedia_rejected s) = video s"
  "canvas (getUserMedia_rejected s) = canvas s"
  "nextFrameId (getUserMedia_rejected s) = nextFrameId s"
  "pending (getUserMedia_rejected s) = pending s"
  "inflight (getUserMedia_rejected s) = inflight s"
  "initPhase (getUserMedia_rejected s) = InitReturned"
  "unmounted (getUserMedia_rejected s) = unmounted s"
  "published (log (getUserMedia_rejected s)) = published (log s)"
  "scheduled (log (getUserMedia_rejected s)) = scheduled (log s)"
  "stops (log (getUserMedia_rejected s)) = stops (log s)"
  "detections (log (getUserMedia_rejected s)) = detections (log s)"
  "count_list (log (getUserMedia_rejected s)) CreateDetector = count_list (log s) CreateDetector"
  "serialized (log (getUserMedia_rejected s)) = serialized (log s)"
  by (simp_all add: getUserMedia_rejected_def emit_def log_simps detections_simps)

lemma model_rejected_fields:
  "status (model_rejected s) = ERROR"
  "errorMessage (model_rejected s) = ModelMessage"
  "hatPosition (model_rejected s) = hatPosition s"
  "animationFrameId (model_rejected s) = animationFrameId s"
  "detectorRef (model_rejected s) = detectorRef s"
  "videoRef (model_rejected s) = videoRef s"
  "canvasRef (model_rejected s) = canvasRef s"
  "video (model_rejected s) = video s"
  "canvas (model_rejected s) = canvas s"
  "nextFrameId (model_rejected s) = nextFrameId s"
  "pending (model_rejected s) = pending s"
  "inflight (model_rejected s) = inflight s"
  "initPhase (model_rejected s) = InitReturned"
  "unmounted (model_rejected s) = unmounted s"
  "published (log (model_rejected s)) = published (log s)"
  "scheduled (log (model_rejected s)) = scheduled (log s)"
  "stops (log (model_rejected s)) = stops (log s)"
  "detections (log (model_rejected s)) = detections (log s)"
  "count_list (log (model_rejected s)) CreateDetector = count_list (log s) CreateDetector"
  "serialized (log (model_rejected s)) = serialized (log s)"
  by (simp_all add: model_rejected_def emit_def log_simps detections_simps)

lemma model_resolved_fields:
  "status (model_resolved s) = (if initPhase s = AwaitCreateDetector then READY else status s)"
  "errorMessage (model_resolved s) = errorMessage s"
  "hatPosition (model_resolved s) = hatPosition s"
  "animationFrameId (model_resolved s) = animationFrameId s"
  "detectorRef (model_resolved s) = (initPhase s = AwaitCreateDetector \<or> detectorRef s)"
  "videoRef (model_resolved s) = videoRef s"
  "canvasRef (model_resolved s) = canvasRef s"
  "video (model_resolved s) = video s"
  "canvas (model_resolved s) = canvas s"
  "nextFrameId (model_resolved s) = nextFrameId s"
  "pending (model_resolved s) = pending s"
  "inflight (model_resolved s) = inflight s"
  "initPhase (model_resolved s) = 
     (case initPhase s of AwaitSetBackend \<Rightarrow> AwaitTfReady
      | AwaitTfReady \<Rightarrow> AwaitCreateDetector
      | AwaitCreateDetector \<Rightarrow> InitReturned | p \<Rightarrow> p)"
  "unmounted (model_resolved s) = unmounted s"
  "published (log (model_resolved s)) = published (log s)"
  "scheduled (log (model_resolved s)) = scheduled (log s)"
  "stops (log (model_resolved s)) = stops (log s)"
  "detections (log (model_resolved s)) = detections (log s)"
  "count_list (log (model_resolved s)) CreateDetector = 
     (if initPhase s = AwaitTfReady then Suc (count_list (log s) CreateDetector)
      else count_list (log s) CreateDetector)"
  "serialized (log (model_resolved s)) = serialized (log s)"
  by (simp_all add: model_resolved_def emit_def log_simps detections_simps split: init_phase.split)

lemma stopTracks_fields:
  "status (stopTracks s) = status s"
  "errorMessage (stopTracks s) = errorMessage s"
  "hatPosition (stopTracks s) = hatPosition s"
  "animationFrameId (stopTracks s) = animationFrameId s"
  "detectorRef (stopTracks s) = detectorRef s"
  "videoRef (stopTracks s) = videoRef s"
  "canvasRef (stopTracks s) = canvasRef s"
  "video (stopTracks s) = 
     (case srcObject (video s) of None \<Rightarrow> video s
      | Some tracks \<Rightarrow> (video s)\<lparr>srcObject := Some (map (\<lambda>_. False) tracks)\<rparr>)"
  "canvas (stopTracks s) = canvas s"
  "nextFrameId (stopTracks s) = nextFrameId s"
  "pending (stopTracks s) = pending s"
  "inflight (stopTracks s) = inflight s"
  "initPhase (stopTracks s) = initPhase s"
  "unmounted (stopTracks s) = unmounted s"
  "published (log (stopTracks s)) = published (log s)"
  "scheduled (log (stopTracks s)) = scheduled (log s)"
  "stops (log (stopTracks s)) = 
     stops (log s) @ (case srcObject (video s) of None \<Rightarrow> [] | Some tracks \<Rightarrow> [0..<length tracks])"
  "detections (log (stopTracks s)) = detections (log s)"
  "count_list (log (stopTracks s)) CreateDetector = count_list (log s) CreateDetector"
  "serialized (log (stopTracks s)) = serialized (log s)"
  by (simp_all add: stopTracks_def log_simps split: option.split)

lemma cleanup_fields:
  "status (cleanup s) = status s"
  "errorMessage (cleanup s) = errorMessage s"
  "hatPosition (cleanup s) = hatPosition s"
  "animationFrameId (cleanup s) = animationFrameId s"
  "detectorRef (cleanup s) = detectorRef s"
  "videoRef (cleanup s) = videoRef s"
  "canvasRef (cleanup s) = canvasRef s"
  "canvas (cleanup s) = canvas s"
  "nextFrameId (cleanup s) = nextFrameId s"
  "inflight (cleanup s) = inflight s"
  "initPhase (cleanup s) = initPhase s"
  "unmounted (cleanup s) = unmounted s"
  "published (log (cleanup s)) = published (log s)"
  "scheduled (log (cleanup s)) = scheduled (log s)"
  "stops (log (cleanup s)) = 
     stops (log s) @
     (if videoRef s then
        case srcObject (video s) of None \<Rightarrow> [] | Some tracks \<Rightarrow> [0..<length tracks]
      else [])"
  "detections (log (cleanup s)) = detections (log s)"
  "count_list (log (cleanup s)) CreateDetector = count_list (log s) CreateDetector"
  "serialized (log (cleanup s)) = serialized (log s)"
  by (simp_all add: cleanup_def Let_def cancelCurrent_fields stopTracks_fields split: option.split)

lemma cleanup_pending: "pending (cleanup s) = pending (cancelCurrent s)"
  by (simp add: cleanup_def Let_def stopTracks_fields)

lemma cleanup_no_stream: "srcObject (video s) = None \<Longrightarrow> video (cleanup s) = video s"
  by (simp add: cleanup_def Let_def cancelCurrent_fields)

lemma cleanup_video:
  "videoRef s \<Longrightarrow> srcObject (video s) = Some tracks \<Longrightarrow>
   srcObject (video (cleanup s)) = Some (map (\<lambda>_. False) tracks)"
  by (simp add: cleanup_def Let_def cancelCurrent_fields stopTracks_fields)

lemma handleStart_idle:
  "\<not> (status s = READY \<and> videoRef s \<and> canvasRef s) \<Longrightarrow> handleStart s = s"
  by (auto simp: handleStart_def)

lemma handleStart_fields:
  assumes "status s = READY \<and> videoRef s \<and> canvasRef s"
  shows
  "status (handleStart s) = DETECTING"
  "errorMessage (handleStart s) = errorMessage s"
  "hatPosition (handleStart s) = hatPosition s"
  "animationFrameId (handleStart s) = (if readable s \<and> context2d (canvas s) then animationFrameId s else Some (nextFrameId s))"
  "detectorRef (handleStart s) = detectorRef s"
  "videoRef (handleStart s) = videoRef s"
  "canvasRef (handleStart s) = canvasRef s"
  "video (handleStart s) = video s"
  "nextFrameId (handleStart s) = (if readable s \<and> context2d (canvas s) then nextFrameId s else Suc (nextFrameId s))"
  "pending (handleStart s) = (if readable s \<and> context2d (canvas s) then pending s else pending s @ [nextFrameId s])"
  "inflight (handleStart s) = (if readable s \<and> context2d (canvas s) then Suc (inflight s) else inflight s)"
  "initPhase (handleStart s) = initPhase s"
  "unmounted (handleStart s) = unmounted s"
  "published (log (handleStart s)) = published (log s)"
  "scheduled (log (handleStart s)) = (if readable s \<and> context2d (canvas s) then scheduled (log s) else scheduled (log s) @ [nextFrameId s])"
  "stops (log (handleStart s)) = stops (log s)"
  "detections (log (handleStart s)) = (if readable s \<and> context2d (canvas s) then Suc (detections (log s)) else detections (log s))"
  "count_list (log (handleStart s)) CreateDetector = count_list (log s) CreateDetector"
  "serialized (log (handleStart s)) = tick_step (serialized (log s))
       (if readable s \<and> context2d (canvas s) then EstimateFaces else RequestAnimationFrame (nextFrameId s))"
  using assms by (simp_all add: handleStart_def detectFace_fields readable_def)

section \<open>The invariants are kept by every event\<close>

lemmas fields =
  requestAnimationFrame_fields cancelCurrent_fields setHatPosition_fields drawBox_fields
  detectFace_fields resume_Faces_fields resume_Rejected_fields initialize_fields
  loadModel_fields getUserMedia_resolved_fields getUserMedia_rejected_fields
  model_rejected_fields model_resolved_fields cleanup_fields

lemma env_frame:
  "one_tick (s\<lparr>videoRef := a, canvasRef := b\<rparr>) = one_tick s"
  "one_tick (s\<lparr>canvas := c\<rparr>) = one_tick s"
  "log_ok (s\<lparr>videoRef := a, canvasRef := b\<rparr>) = log_ok s"
  "log_ok (s\<lparr>canvas := c\<rparr>) = log_ok s"
  "init_ok (s\<lparr>videoRef := a, canvasRef := b\<rparr>) = init_ok s"
  "init_ok (s\<lparr>canvas := c\<rparr>) = init_ok s"
  by (simp_all add: one_tick_def log_ok_def init_ok_def loading_def)

lemma env_frame_video:
  "init_ok
     (s\<lparr>video := (video s)\<lparr>readyState := r, offsetWidth := ow, offsetHeight := oh,
                             videoWidth := vw, videoHeight := vh\<rparr>\<rparr>) = init_ok s"
  "log_ok
     (s\<lparr>video := (video s)\<lparr>readyState := r, offsetWidth := ow, offsetHeight := oh,
                             videoWidth := vw, videoHeight := vh\<rparr>\<rparr>) = log_ok s"
  "one_tick
     (s\<lparr>video := (video s)\<lparr>readyState := r, offsetWidth := ow, offsetHeight := oh,
                             videoWidth := vw, videoHeight := vh\<rparr>\<rparr>) = one_tick s"
  by (simp_all add: one_tick_def log_ok_def init_ok_def loading_def)

lemma awaitingModel_phase:
  "awaitingModel s \<Longrightarrow>
   initPhase s \<noteq> InitReturned \<and> initPhase s \<noteq> NotMounted \<and> initPhase s \<noteq> AwaitGetUserMedia"
  by (auto simp: awaitingModel_def)

lemma only_tick: "i \<in> set xs \<Longrightarrow> n + length xs \<le> Suc 0 \<Longrightarrow> xs = [i] \<and> n = 0"
  by (cases xs) auto

lemma only_call: "0 < n \<Longrightarrow> n + length xs \<le> Suc 0 \<Longrightarrow> xs = [] \<and> n = Suc 0"
  by (cases xs) auto

lemma frame_enabled:
  assumes "one_tick s" and "step (AnimationFrame i) s = Some s'"
  shows "pending s = [i] \<and> inflight s = 0"
proof -
  from assms have "i \<in> set (pending s)" by (simp split: if_splits)
  moreover from assms(1) have "inflight s + length (pending s) \<le> Suc 0" by (simp add: one_tick_def)
  ultimately show ?thesis by (rule only_tick)
qed

lemma return_enabled:
  assumes "one_tick s" and "0 < inflight s"
  shows "pending s = [] \<and> inflight s = Suc 0"
proof -
  from assms(1) have "inflight s + length (pending s) \<le> Suc 0" by (simp add: one_tick_def)
  with assms(2) show ?thesis by (rule only_call)
qed

lemma one_tick_step:
  assumes "one_tick s" and "step e s = Some s'"
  shows "one_tick s'"
proof (cases e)
  case (AnimationFrame i)
  from assms(2) have "step (AnimationFrame i) s = Some s'" unfolding AnimationFrame .
  with assms(1) have "pending s = [i] \<and> inflight s = 0" by (rule frame_enabled)
  with assms AnimationFrame show ?thesis
    by (auto simp: one_tick_def fields split: if_splits)
next
  case (EstimateFacesResolved fs)
  with assms have "0 < inflight s" by (simp split: if_splits)
  with assms(1) have "pending s = [] \<and> inflight s = Suc 0" by (rule return_enabled)
  with assms EstimateFacesResolved show ?thesis
    by (auto simp: one_tick_def fields split: if_splits)
next
  case EstimateFacesRejected
  with assms have "0 < inflight s" by (simp split: if_splits)
  with assms(1) have "pending s = [] \<and> inflight s = Suc 0" by (rule return_enabled)
  with assms EstimateFacesRejected show ?thesis
    by (auto simp: one_tick_def fields resume_Rejected_pending split: if_splits)
next
  case Unmount
  with assms show ?thesis
    by (auto simp: one_tick_def isMounted_def fields cleanup_pending cancelCurrent_pending
        split: if_splits)
next
  case ClickStart
  show ?thesis
  proof (cases "status s = READY \<and> videoRef s \<and> canvasRef s")
    case True
    with assms ClickStart show ?thesis
      by (auto simp: one_tick_def isMounted_def handleStart_fields split: if_splits)
  next
    case False
    with assms ClickStart show ?thesis
      by (auto simp: handleStart_idle split: if_splits)
  qed
next
  case ModelResolved
  with assms show ?thesis
    by (auto simp: one_tick_def awaitingModel_def fields split: if_splits)
next
  case ModelRejected
  with assms show ?thesis
    by (auto simp: one_tick_def fields split: if_splits dest: awaitingModel_phase)
next
  case Mount
  with assms show ?thesis
    by (auto simp: one_tick_def fields split: if_splits)
next
  case (GetUserMediaResolved stream)
  with assms show ?thesis
    by (auto simp: one_tick_def fields split: if_splits)
next
  case GetUserMediaRejected
  with assms show ?thesis
    by (auto simp: one_tick_def fields split: if_splits)
next
  case LoadedMetadata
  with assms show ?thesis
    by (auto simp: one_tick_def fields split: if_splits)
qed (use assms in \<open>auto simp: env_frame env_frame_video\<close>)


lemma log_ok_step:
  assumes "one_tick s" and "log_ok s" and "step e s = Some s'"
  shows "log_ok s'"
proof (cases e)
  case (AnimationFrame i)
  from assms(3) have "step (AnimationFrame i) s = Some s'" unfolding AnimationFrame .
  with assms(1) have "pending s = [i] \<and> inflight s = 0" by (rule frame_enabled)
  with assms(2,3) AnimationFrame show ?thesis
    by (auto simp: log_ok_def fields split: if_splits)
next
  case (EstimateFacesResolved fs)
  with assms have "0 < inflight s" by (simp split: if_splits)
  with assms(1) have "pending s = [] \<and> inflight s = Suc 0" by (rule return_enabled)
  with assms(2,3) EstimateFacesResolved show ?thesis
    by (auto simp: log_ok_def fields resume_Faces_serialized split: if_splits)
next
  case EstimateFacesRejected
  with assms have "0 < inflight s" by (simp split: if_splits)
  with assms(1) have "pending s = [] \<and> inflight s = Suc 0" by (rule return_enabled)
  with assms(2,3) EstimateFacesRejected show ?thesis
    by (auto simp: log_ok_def fields split: if_splits)
next
  case Unmount
  with assms(2,3) show ?thesis
    by (auto simp: log_ok_def isMounted_def fields split: if_splits)
next
  case ClickStart
  show ?thesis
  proof (cases "status s = READY \<and> videoRef s \<and> canvasRef s")
    case True
    with assms(1) have "inflight s = 0" by (simp add: one_tick_def)
    with True assms(2,3) ClickStart show ?thesis
      by (auto simp: log_ok_def isMounted_def handleStart_fields split: if_splits)
  next
    case False
    with assms(2,3) ClickStart show ?thesis
      by (auto simp: handleStart_idle split: if_splits)
  qed
next
  case ModelResolved
  with assms(2,3) show ?thesis
    by (auto simp: log_ok_def fields split: if_splits)
next
  case ModelRejected
  with assms(2,3) show ?thesis
    by (auto simp: log_ok_def fields split: if_splits)
next
  case Mount
  with assms(2,3) show ?thesis
    by (auto simp: log_ok_def fields split: if_splits)
next
  case (GetUserMediaResolved stream)
  with assms(2,3) show ?thesis
    by (auto simp: log_ok_def fields split: if_splits)
next
  case GetUserMediaRejected
  with assms(2,3) show ?thesis
    by (auto simp: log_ok_def fields split: if_splits)
next
  case LoadedMetadata
  with assms(2,3) show ?thesis
    by (auto simp: log_ok_def fields split: if_splits)
qed (use assms(2,3) in \<open>auto simp: env_frame env_frame_video\<close>)

lemma init_ok_step:
  assumes "one_tick s" and "init_ok s" and "step e s = Some s'"
  shows "init_ok s'"
proof (cases e)
  case (AnimationFrame i)
  from assms(3) have "step (AnimationFrame i) s = Some s'" unfolding AnimationFrame .
  with assms(1) have "pending s = [i] \<and> inflight s = 0" by (rule frame_enabled)
  with assms(2,3) AnimationFrame show ?thesis
    by (auto simp: init_ok_def loading_def fields split: if_splits)
next
  case (EstimateFacesResolved fs)
  with assms(2,3) show ?thesis
    by (auto simp: init_ok_def loading_def fields split: if_splits)
next
  case EstimateFacesRejected
  with assms(2,3) show ?thesis
    by (auto simp: init_ok_def loading_def fields split: if_splits)
next
  case Unmount
  with assms(2,3) show ?thesis
    by (auto simp: init_ok_def loading_def isMounted_def fields cleanup_pending
        cancelCurrent_idle cleanup_no_stream split: if_splits)
next
  case ClickStart
  show ?thesis
  proof (cases "status s = READY \<and> videoRef s \<and> canvasRef s")
    case True
    with assms(1) have "initPhase s = InitReturned" by (auto simp: one_tick_def)
    with True assms(2,3) ClickStart show ?thesis
      by (auto simp: init_ok_def isMounted_def handleStart_fields split: if_splits)
  next
    case False
    with assms(2,3) ClickStart show ?thesis
      by (auto simp: handleStart_idle split: if_splits)
  qed
next
  case ModelResolved
  with assms(2,3) show ?thesis
    by (auto simp: init_ok_def loading_def awaitingModel_def fields split: if_splits)
next
  case ModelRejected
  with assms(3) show ?thesis
    by (auto simp: init_ok_def fields split: if_splits)
next
  case Mount
  with assms(2,3) show ?thesis
    by (auto simp: init_ok_def loading_def fields split: if_splits)
next
  case (GetUserMediaResolved stream)
  with assms(2,3) show ?thesis
    by (auto simp: init_ok_def loading_def fields split: if_splits)
next
  case GetUserMediaRejected
  with assms(3) show ?thesis
    by (auto simp: init_ok_def fields split: if_splits)
next
  case LoadedMetadata
  with assms(2,3) show ?thesis
    by (auto simp: init_ok_def loading_def fields split: if_splits)
qed (use assms(2,3) in \<open>auto simp: env_frame env_frame_video\<close>)

section \<open>Runs\<close>

lemma invariant_run:
  assumes "run evs s = Some s'" and "one_tick s" and "log_ok s" and "init_ok s"
  shows "one_tick s' \<and> log_ok s' \<and> init_ok s'"
  using assms
proof (induction evs arbitrary: s)
  case Nil
  then show ?case by simp
next
  case (Cons e evs)
  from Cons.prems(1) obtain t where t: "step e s = Some t" and r: "run evs t = Some s'"
    by (auto split: option.splits)
  from t Cons.prems have "one_tick t" and "log_ok t" and "init_ok t"
    by (blast intro: one_tick_step log_ok_step init_ok_step)+
  with r show ?case by (rule Cons.IH)
qed

lemma invariant_initial: "one_tick initial" "log_ok initial" "init_ok initial"
  by (simp_all add: one_tick_def log_ok_def init_ok_def loading_def initial_def
      serialized_def detections_def)

lemma reachable:
  assumes "run evs initial = Some s"
  shows "one_tick s" and "log_ok s" and "init_ok s"
  using invariant_run [OF assms invariant_initial] by simp_all

section \<open>A failed component stays as it is\<close>

lemma halted_step:
  assumes "halted s" and "step e s = Some s'"
  shows "halted s' \<and> errorMessage s' = errorMessage s \<and> detectorRef s' = detectorRef s \<and>
    detections (log s') = detections (log s) \<and> scheduled (log s') = scheduled (log s) \<and>
    published (log s') = published (log s) \<and>
    count_list (log s') CreateDetector = count_list (log s) CreateDetector"
proof (cases e)
  case ClickStart
  from assms(1) have "\<not> (status s = READY \<and> videoRef s \<and> canvasRef s)"
    by (simp add: halted_def)
  with assms ClickStart show ?thesis
    by (auto simp: handleStart_idle split: if_splits)
next
  case Unmount
  with assms show ?thesis
    by (auto simp: halted_def fields cleanup_pending cancelCurrent_idle split: if_splits)
qed (use assms in \<open>auto simp: halted_def awaitingModel_def split: if_splits\<close>)

lemma halted_run:
  assumes "run evs s = Some s'" and "halted s"
  shows "halted s' \<and> errorMessage s' = errorMessage s \<and> detectorRef s' = detectorRef s \<and>
    detections (log s') = detections (log s) \<and> scheduled (log s') = scheduled (log s) \<and>
    published (log s') = published (log s) \<and>
    count_list (log s') CreateDetector = count_list (log s) CreateDetector"
  using assms
proof (induction evs arbitrary: s)
  case Nil
  then show ?case by simp
next
  case (Cons e evs)
  from Cons.prems(1) obtain t where t: "step e s = Some t" and r: "run evs t = Some s'"
    by (auto split: option.splits)
  from Cons.prems(2) t have h: "halted t \<and> errorMessage t = errorMessage s \<and>
    detectorRef t = detectorRef s \<and> detections (log t) = detections (log s) \<and>
    scheduled (log t) = scheduled (log s) \<and> published (log t) = published (log s) \<and>
    count_list (log t) CreateDetector = count_list (log s) CreateDetector"
    by (rule halted_step)
  then have "halted t" by simp
  with r have "halted s' \<and> errorMessage s' = errorMessage t \<and> detectorRef s' = detectorRef t \<and>
    detections (log s') = detections (log t) \<and> scheduled (log s') = scheduled (log t) \<and>
    published (log s') = published (log t) \<and>
    count_list (log s') CreateDetector = count_list (log t) CreateDetector"
    by (rule Cons.IH)
  with h show ?case by simp
qed

section \<open>After the teardown\<close>

lemma torn_down_step:
  assumes "unmounted s" and "initPhase s \<noteq> NotMounted \<and> initPhase s \<noteq> AwaitGetUserMedia"
    and "step e s = Some s'"
  shows "unmounted s' \<and> (initPhase s' \<noteq> NotMounted \<and> initPhase s' \<noteq> AwaitGetUserMedia) \<and>
    stops (log s') = stops (log s) \<and> srcObject (video s') = srcObject (video s)"
proof (cases e)
  case ClickStart
  with assms show ?thesis by (simp add: isMounted_def)
next
  case Unmount
  with assms show ?thesis by (simp add: isMounted_def)
next
  case ModelResolved
  with assms show ?thesis
    by (auto simp: awaitingModel_def fields split: if_splits)
qed (use assms in \<open>auto simp: fields split: if_splits\<close>)

lemma torn_down_run:
  assumes "run evs s = Some s'" and "unmounted s"
    and "initPhase s \<noteq> NotMounted \<and> initPhase s \<noteq> AwaitGetUserMedia"
  shows "stops (log s') = stops (log s) \<and> srcObject (video s') = srcObject (video s)"
  using assms
proof (induction evs arbitrary: s)
  case Nil
  then show ?case by simp
next
  case (Cons e evs)
  from Cons.prems(1) obtain t where t: "step e s = Some t" and r: "run evs t = Some s'"
    by (auto split: option.splits)
  from Cons.prems(2,3) t
  have h: "unmounted t \<and> (initPhase t \<noteq> NotMounted \<and> initPhase t \<noteq> AwaitGetUserMedia) \<and>
    stops (log t) = stops (log s) \<and> srcObject (video t) = srcObject (video s)"
    by (rule torn_down_step)
  then have "unmounted t" and "initPhase t \<noteq> NotMounted \<and> initPhase t \<noteq> AwaitGetUserMedia"
    by simp_all
  with r have "stops (log s') = stops (log t) \<and> srcObject (video s') = srcObject (video t)"
    by (rule Cons.IH)
  with h show ?case by simp
qed

section \<open>The sample runs\<close>

text \<open>The roundings of the sample runs, each computed from the definition of \<open>fl\<close>.\<close>

lemma fl_value:
  assumes "x \<noteq> 0" and "of_int (nearest_even (x / ulp x)) * ulp x = y" and "\<bar>y\<bar> < 2 ^ 1024"
  shows "fl x = Finite y"
  using assms by (simp add: fl_def Let_def)

lemma sample_sizes:
  "num 640 = Finite 640"
  "num 1280 = Finite 1280"
  "num 360 = Finite 360"
  "num 720 = Finite 720"
  "num 480 = Finite 480"
  unfolding num_def of_nat_numeral by (rule fl_value, simp, code_simp, simp)+

lemma sample_arith:
  "ddiv (Finite 640) (Finite 1280) = Finite (1 / 2)"
  "ddiv (Finite 360) (Finite 720) = Finite (1 / 2)"
  "dmul (Finite 100) (Finite (1 / 2)) = Finite 50"
  "dmul (Finite 50) (Finite (1 / 2)) = Finite 25"
  "dmul (Finite 200) (Finite (1 / 2)) = Finite 100"
  "dmul (Finite 100) (Finite (3 / 2)) = Finite 150"
  "ddiv (Finite 100) (Finite 2) = Finite 50"
  "dadd (Finite 50) (Finite 50) = Finite 100"
  by (simp, rule fl_value, simp, code_simp, simp)+

lemma narrow_arith:
  "ddiv (Finite 640) (Finite 480) = Finite (6004799503160661 / 4503599627370496)"
  "ddiv (Finite 480) (Finite 360) = Finite (6004799503160661 / 4503599627370496)"
  "dmul (Finite 7) (Finite (6004799503160661 / 4503599627370496)) =
     Finite (2627099782632789 / 281474976710656)"
  "dmul (Finite 1) (Finite (6004799503160661 / 4503599627370496)) =
     Finite (6004799503160661 / 4503599627370496)"
  "dmul (Finite (6004799503160661 / 4503599627370496)) (Finite (3 / 2)) = Finite 2"
  "ddiv (Finite (6004799503160661 / 4503599627370496)) (Finite 2) =
     Finite (6004799503160661 / 9007199254740992)"
  "dadd (Finite (2627099782632789 / 281474976710656))
     (Finite (6004799503160661 / 9007199254740992)) =
     Finite (5629499534213119 / 562949953421312)"
  "ddiv (Finite 1) (Finite 2) = Finite (1 / 2)"
  "dadd (Finite 7) (Finite (1 / 2)) = Finite (15 / 2)"
  "dmul (Finite (15 / 2)) (Finite (6004799503160661 / 4503599627370496)) = Finite 10"
  by (simp, rule fl_value, simp, code_simp, simp)+

lemma sample_exact: "fl 50 = Finite 50" "fl 100 = Finite 100"
  by (rule fl_value, simp, code_simp, simp)+

lemma zero_arith: "dmul (Finite 0) (Finite x) = Finite 0"
  by (simp add: fl_def)

lemmas run_defs = after_def startup_def enlarged_def sample_face_def narrow_face_def initial_def
  initialize_def loadModel_def getUserMedia_resolved_def getUserMedia_rejected_def
  model_resolved_def model_rejected_def handleStart_def detectFace_def readable_def
  detectFace_resume_def requestAnimationFrame_def cancelCurrent_def cancelAnimationFrame_def
  setHatPosition_def drawBox_def placement_def scaleX_def scaleY_def emit_def cleanup_def
  stopTracks_def awaitingModel_def isMounted_def Let_def sample_sizes sample_arith narrow_arith zero_arith

lemma sample_runs:
  "run (startup r) initial = Some (after (startup r))"
  "step EstimateFacesRejected (after (startup 4)) =
     Some (after (startup 4 @ [EstimateFacesRejected]))"
  "step Unmount (after (startup 4)) = Some (after (startup 4 @ [Unmount]))"
  "run [ClickStart, Unmount] (after (startup 4 @ [EstimateFacesRejected])) =
     Some (after (startup 4 @ [EstimateFacesRejected, ClickStart, Unmount]))"
  "run [Mount] initial = Some (after [Mount])"
  "step GetUserMediaRejected (after [Mount]) = Some (after [Mount, GetUserMediaRejected])"
  "run [ClickStart, Unmount] (after [Mount, GetUserMediaRejected]) =
     Some (after [Mount, GetUserMediaRejected, ClickStart, Unmount])"
  by (simp_all add: run_defs)

lemma tracked_runs:
  "run (startup 4 @ [EstimateFacesResolved [sample_face], AnimationFrame 1]) initial =
     Some (after (startup 4 @ [EstimateFacesResolved [sample_face], AnimationFrame 1]))"
  "step (EstimateFacesResolved [])
     (after (startup 4 @ [EstimateFacesResolved [sample_face], AnimationFrame 1])) =
     Some (after (startup 4 @
       [EstimateFacesResolved [sample_face], AnimationFrame 1, EstimateFacesResolved []]))"
  "run [EstimateFacesResolved [sample_face]] (after (startup 4 @ [Unmount])) =
     Some (after (startup 4 @ [Unmount, EstimateFacesResolved [sample_face]]))"
  by (simp_all add: run_defs del: dadd.simps dmul.simps ddiv.simps)

section \<open>The claims\<close>

text \<open>
  C1, as the claim states it, fails. The video is shown at 640 x 480 for a 480 x 360
  stream and the first box has \<open>xMin = 7\<close> and width 1 (all fields non-negative, the
  native size positive). The tick publishes \<open>left = 10 - 2 ^ -49\<close>
  (9.999999999999998): the source adds the two rounded products. The formula of the
  claim, \<open>(xMin + width / 2) * scaleX\<close>, gives 10, in double arithmetic and in exact
  arithmetic alike.
\<close>

theorem left_is_sum_of_rounded_products:
  "run (enlarged @ [EstimateFacesResolved [narrow_face]]) initial \<noteq> None \<and>
   nonneg (xMin narrow_face) \<and> nonneg (yMin narrow_face) \<and>
   nonneg (box_width narrow_face) \<and> nonneg (box_height narrow_face) \<and>
   offsetWidth (video (after enlarged)) = 640 \<and> videoWidth (video (after enlarged)) = 480 \<and>
   videoHeight (video (after enlarged)) = 360 \<and>
   hat_left (hatPosition (after (enlarged @ [EstimateFacesResolved [narrow_face]]))) =
     Finite (10 - 1 / 2 ^ 49) \<and>
   dmul (dadd (xMin narrow_face) (ddiv (box_width narrow_face) (Finite 2)))
     (scaleX (video (after enlarged))) = Finite 10 \<and>
   (7 + 1 / 2) * (640 / 480) = (10 :: rat)"
  by (simp add: run_defs del: dadd.simps dmul.simps ddiv.simps)

text \<open>
  C1, amended. For every box with non-negative fields and every positive native
  resolution, a tick whose detection call resolves with that box first publishes the
  placement with \<open>left = xMin * scaleX + (width * scaleX) / 2\<close>, \<open>top = yMin * scaleY\<close>,
  \<open>width = width * scaleX * 1.5\<close> (a factor greater than 1) and \<open>height\<close> equal to that
  width, where \<open>scaleX\<close> is the display width over the native width, \<open>scaleY\<close> the
  display height over the native height, and every operation rounds to the nearest
  double. So \<open>left\<close> is \<open>(xMin + width / 2) * scaleX\<close> where none of its four operations
  rounds, and can differ from it by rounding otherwise.
\<close>

theorem placement_formula:
  assumes "nonneg (xMin b)" and "nonneg (yMin b)" and "nonneg (box_width b)"
    and "nonneg (box_height b)"
    and "0 < videoWidth (video s)" and "0 < videoHeight (video s)"
  shows "hat_left (hatPosition (detectFace_resume (Faces (b # bs)) s)) =
      dadd (dmul (xMin b) (ddiv (num (offsetWidth (video s))) (num (videoWidth (video s)))))
        (ddiv (dmul (box_width b)
           (ddiv (num (offsetWidth (video s))) (num (videoWidth (video s))))) (Finite 2)) \<and>
    hat_top (hatPosition (detectFace_resume (Faces (b # bs)) s)) =
      dmul (yMin b) (ddiv (num (offsetHeight (video s))) (num (videoHeight (video s)))) \<and>
    hat_width (hatPosition (detectFace_resume (Faces (b # bs)) s)) =
      dmul (dmul (box_width b)
        (ddiv (num (offsetWidth (video s))) (num (videoWidth (video s))))) (Finite (3 / 2)) \<and>
    (1 :: rat) < 3 / 2 \<and>
    hat_height (hatPosition (detectFace_resume (Faces (b # bs)) s)) =
      hat_width (hatPosition (detectFace_resume (Faces (b # bs)) s)) \<and>
    published (log (detectFace_resume (Faces (b # bs)) s)) =
      published (log s) @ [hatPosition (detectFace_resume (Faces (b # bs)) s)] \<and>
    (\<forall>x w k.
       xMin b = Finite x \<and> box_width b = Finite w \<and>
       ddiv (num (offsetWidth (video s))) (num (videoWidth (video s))) = Finite k \<and>
       fl (x * k) = Finite (x * k) \<and> fl (w * k) = Finite (w * k) \<and>
       fl (w * k / 2) = Finite (w * k / 2) \<and>
       fl (x * k + w * k / 2) = Finite (x * k + w * k / 2) \<longrightarrow>
       hat_left (hatPosition (detectFace_resume (Faces (b # bs)) s)) =
         Finite ((x + w / 2) * k))"
  by (simp add: resume_Faces_fields placement_def scaleX_def scaleY_def Let_def algebra_simps)

theorem placement_formula_witness:
  "nonneg (xMin sample_face) \<and> nonneg (yMin sample_face) \<and> nonneg (box_width sample_face) \<and>
   nonneg (box_height sample_face) \<and> 0 < videoWidth (video (after (startup 4))) \<and>
   0 < videoHeight (video (after (startup 4))) \<and>
   hat_left (hatPosition (detectFace_resume (Faces [sample_face]) (after (startup 4)))) =
     Finite 100 \<and>
   hat_top (hatPosition (detectFace_resume (Faces [sample_face]) (after (startup 4)))) =
     Finite 25 \<and>
   hat_width (hatPosition (detectFace_resume (Faces [sample_face]) (after (startup 4)))) =
     Finite 150 \<and>
   hat_height (hatPosition (detectFace_resume (Faces [sample_face]) (after (startup 4)))) =
     Finite 150 \<and>
   xMin sample_face = Finite 100 \<and> box_width sample_face = Finite 200 \<and>
   ddiv (num (offsetWidth (video (after (startup 4)))))
     (num (videoWidth (video (after (startup 4))))) = Finite (1 / 2) \<and>
   fl (100 * (1 / 2)) = Finite (100 * (1 / 2)) \<and>
   fl (200 * (1 / 2)) = Finite (200 * (1 / 2)) \<and>
   fl (200 * (1 / 2) / 2) = Finite (200 * (1 / 2) / 2) \<and>
   fl (100 * (1 / 2) + 200 * (1 / 2) / 2) = Finite (100 * (1 / 2) + 200 * (1 / 2) / 2) \<and>
   Finite ((100 + 200 / 2) * (1 / 2)) = Finite 100"
proof -
  have h: "nonneg (xMin sample_face)" "nonneg (yMin sample_face)"
    "nonneg (box_width sample_face)" "nonneg (box_height sample_face)"
    "0 < videoWidth (video (after (startup 4)))"
    "0 < videoHeight (video (after (startup 4)))"
    by (simp_all add: run_defs)
  have v: "offsetWidth (video (after (startup 4))) = 640"
    "videoWidth (video (after (startup 4))) = 1280"
    "offsetHeight (video (after (startup 4))) = 360"
    "videoHeight (video (after (startup 4))) = 720"
    by (simp_all add: run_defs)
  show ?thesis
    using h placement_formula [OF h, of "[]"]
    by (simp add: v sample_face_def sample_sizes sample_arith sample_exact
        del: dadd.simps dmul.simps ddiv.simps)
qed

text \<open>
  C2. In every state a run can reach with a detection call open, the rejection of the
  call sets the status to \<open>ERROR\<close> with the detection message, leaves no tick
  scheduled (the one \<open>animationFrameId\<close> names is cancelled) and schedules none;
  and whatever happens afterwards, the status and the message stay, no tick is
  scheduled or pending and no further detection call is made.
\<close>

theorem detection_failure_stops:
  assumes "run evs initial = Some s" and "step EstimateFacesRejected s = Some s1"
    and "run evs' s1 = Some s2"
  shows "status s1 = ERROR \<and> errorMessage s1 = DetectionMessage \<and>
    pending s1 = [] \<and> inflight s1 = 0 \<and> scheduled (log s1) = scheduled (log s) \<and>
    detections (log s1) = detections (log s) \<and>
    status s2 = ERROR \<and> errorMessage s2 = DetectionMessage \<and>
    pending s2 = [] \<and> inflight s2 = 0 \<and> scheduled (log s2) = scheduled (log s) \<and>
    detections (log s2) = detections (log s)"
proof -
  from assms(1) have inv: "one_tick s" by (rule reachable)
  from assms(2) have open_call: "0 < inflight s" and s1: "s1 = detectFace_resume Rejected s"
    by (simp_all split: if_splits)
  from inv open_call have idle: "pending s = [] \<and> inflight s = Suc 0"
    by (rule return_enabled)
  from inv have "status s \<noteq> DETECTING \<longrightarrow> inflight s = 0"
    and "initPhase s \<noteq> InitReturned \<longrightarrow> status s \<noteq> DETECTING"
    by (simp_all add: one_tick_def)
  with open_call have "initPhase s = InitReturned" by auto
  with idle have first: "halted s1 \<and> errorMessage s1 = DetectionMessage \<and>
    scheduled (log s1) = scheduled (log s) \<and> detections (log s1) = detections (log s)"
    by (simp add: s1 halted_def resume_Rejected_fields resume_Rejected_pending)
  then have "halted s1" by simp
  with assms(3) have "halted s2 \<and> errorMessage s2 = errorMessage s1 \<and>
    detectorRef s2 = detectorRef s1 \<and> detections (log s2) = detections (log s1) \<and>
    scheduled (log s2) = scheduled (log s1) \<and> published (log s2) = published (log s1) \<and>
    count_list (log s2) CreateDetector = count_list (log s1) CreateDetector"
    by (rule halted_run)
  with first show ?thesis by (simp add: halted_def)
qed

theorem detection_failure_stops_witness:
  "run (startup 4) initial = Some (after (startup 4)) \<and>
   step EstimateFacesRejected (after (startup 4)) =
     Some (after (startup 4 @ [EstimateFacesRejected])) \<and>
   run [ClickStart, Unmount] (after (startup 4 @ [EstimateFacesRejected])) =
     Some (after (startup 4 @ [EstimateFacesRejected, ClickStart, Unmount])) \<and>
   status (after (startup 4 @ [EstimateFacesRejected])) = ERROR \<and>
   pending (after (startup 4 @ [EstimateFacesRejected])) = [] \<and>
   status (after (startup 4 @ [EstimateFacesRejected, ClickStart, Unmount])) = ERROR \<and>
   detections (log (after (startup 4 @ [EstimateFacesRejected, ClickStart, Unmount]))) =
     detections (log (after (startup 4)))"
  using detection_failure_stops [OF sample_runs(1) sample_runs(2) sample_runs(4)] sample_runs
  by simp

text \<open>
  C3. In every state a run can reach with a detection call open, a call that resolves
  with no box publishes one placement: it is the placement published before (the
  initial \<open>hatPosition\<close> where none was) with \<open>display\<close> set to \<open>none\<close>, every other
  field as it was.
\<close>

theorem no_face_hides:
  assumes "run evs initial = Some s" and "step (EstimateFacesResolved []) s = Some s'"
  shows "published (log s') = published (log s) @ [hatPosition s'] \<and>
    hatPosition s' =
      (last (hatPosition initial # published (log s)))\<lparr>hat_display := DisplayNone\<rparr>"
proof -
  from assms(1) have "log_ok s" by (rule reachable)
  then have "hatPosition s = last (hatPosition initial # published (log s))"
    by (simp add: log_ok_def)
  moreover from assms(2) have "s' = detectFace_resume (Faces []) s"
    by (simp split: if_splits)
  ultimately show ?thesis by (simp add: resume_Faces_fields)
qed

text \<open>
  The witness: a face is found and its placement published (visible, at left 100, top
  25, 150 wide and high), the next tick runs and finds no face; the placement
  published then has the same geometry and is hidden.
\<close>

theorem no_face_hides_witness:
  "run (startup 4 @ [EstimateFacesResolved [sample_face], AnimationFrame 1]) initial =
     Some (after (startup 4 @ [EstimateFacesResolved [sample_face], AnimationFrame 1])) \<and>
   step (EstimateFacesResolved [])
     (after (startup 4 @ [EstimateFacesResolved [sample_face], AnimationFrame 1])) =
     Some (after (startup 4 @
       [EstimateFacesResolved [sample_face], AnimationFrame 1, EstimateFacesResolved []])) \<and>
   published (log (after (startup 4 @
       [EstimateFacesResolved [sample_face], AnimationFrame 1]))) =
     [\<lparr> hat_top = Finite 25, hat_left = Finite 100, hat_width = Finite 150,
        hat_height = Finite 150, hat_transform = ''translate(-50%, -90%) rotate(-10deg)'',
        hat_display = DisplayBlock \<rparr>] \<and>
   published (log (after (startup 4 @
       [EstimateFacesResolved [sample_face], AnimationFrame 1, EstimateFacesResolved []]))) =
     [\<lparr> hat_top = Finite 25, hat_left = Finite 100, hat_width = Finite 150,
        hat_height = Finite 150, hat_transform = ''translate(-50%, -90%) rotate(-10deg)'',
        hat_display = DisplayBlock \<rparr>,
      \<lparr> hat_top = Finite 25, hat_left = Finite 100, hat_width = Finite 150,
        hat_height = Finite 150, hat_transform = ''translate(-50%, -90%) rotate(-10deg)'',
        hat_display = DisplayNone \<rparr>] \<and>
   hatPosition (after (startup 4 @
       [EstimateFacesResolved [sample_face], AnimationFrame 1, EstimateFacesResolved []])) =
     \<lparr> hat_top = Finite 25, hat_left = Finite 100, hat_width = Finite 150,
       hat_height = Finite 150, hat_transform = ''translate(-50%, -90%) rotate(-10deg)'',
       hat_display = DisplayNone \<rparr>"
proof -
  have p: "published (log (after (startup 4 @
       [EstimateFacesResolved [sample_face], AnimationFrame 1]))) =
     [\<lparr> hat_top = Finite 25, hat_left = Finite 100, hat_width = Finite 150,
        hat_height = Finite 150, hat_transform = ''translate(-50%, -90%) rotate(-10deg)'',
        hat_display = DisplayBlock \<rparr>]"
    by (simp add: run_defs del: dadd.simps dmul.simps ddiv.simps)
  from no_face_hides [OF tracked_runs(1) tracked_runs(2)] p tracked_runs show ?thesis
    by simp
qed

text \<open>
  C4. A detection call that resolves with one or more boxes publishes the placement of
  the box at index 0: two result lists with the same first box give the same
  published placement, whatever their later elements.
\<close>

theorem first_face_only:
  "hatPosition (detectFace_resume (Faces (face # others)) s) =
     hatPosition (detectFace_resume (Faces (face # others')) s) \<and>
   published (log (detectFace_resume (Faces (face # others)) s)) =
     published (log (detectFace_resume (Faces (face # others')) s)) \<and>
   hatPosition (detectFace_resume (Faces (face # others)) s) = placement (video s) face"
  by (simp add: resume_Faces_fields)

text \<open>
  C9. In every state a run can reach, at most one detection call is open, and a tick
  is scheduled only while none is open (at most one tick exists, scheduled or
  suspended in its call); and the log follows the discipline of \<open>tick_step\<close>: a call
  starts only after the call before it has returned and its placement is published,
  and a tick is scheduled only then, so the placements are published in the order of
  the ticks.
\<close>

theorem ticks_serialized:
  assumes "run evs initial = Some s"
  shows "inflight s \<le> 1 \<and> inflight s + length (pending s) \<le> 1 \<and>
    serialized (log s) = Some (if inflight s = 0 then Free else Busy)"
proof -
  from assms have "one_tick s" and "log_ok s" by (rule reachable)+
  then show ?thesis by (simp add: one_tick_def log_ok_def)
qed

theorem ticks_serialized_witness:
  "run (startup 4) initial = Some (after (startup 4)) \<and>
   inflight (after (startup 4)) = 1 \<and> pending (after (startup 4)) = [] \<and>
   serialized (log (after (startup 4))) = Some Busy"
proof -
  have "inflight (after (startup 4)) = 1" and "pending (after (startup 4)) = []"
    by (simp_all add: run_defs)
  with ticks_serialized [OF sample_runs(1), of 4] sample_runs(1) show ?thesis
    by simp
qed

text \<open>
  C10, as the claim states it, fails: the tick that finds the source unreadable is not
  fatal, and is not distinct from the tick that gets no drawing context. From the same
  start, one run loses the context and the other has the video at \<open>readyState\<close> 1; in
  both the first tick schedules handle 1, the tick of handle 1 schedules handle 2, the
  status stays \<open>DETECTING\<close>, and the two logs are the same.
\<close>

theorem unreadable_tick_like_no_context_tick:
  "readable (after ((ContextChanged False # startup 4) @ [AnimationFrame 1])) \<and>
   \<not> context2d (canvas (after ((ContextChanged False # startup 4) @ [AnimationFrame 1]))) \<and>
   \<not> readable (after (startup 1 @ [AnimationFrame 1])) \<and>
   step (AnimationFrame 1) (after (ContextChanged False # startup 4)) =
     Some (after ((ContextChanged False # startup 4) @ [AnimationFrame 1])) \<and>
   step (AnimationFrame 1) (after (startup 1)) = Some (after (startup 1 @ [AnimationFrame 1])) \<and>
   log (after ((ContextChanged False # startup 4) @ [AnimationFrame 1])) =
     log (after (startup 1 @ [AnimationFrame 1])) \<and>
   pending (after ((ContextChanged False # startup 4) @ [AnimationFrame 1])) = [2] \<and>
   pending (after (startup 1 @ [AnimationFrame 1])) = [2] \<and>
   status (after ((ContextChanged False # startup 4) @ [AnimationFrame 1])) = DETECTING \<and>
   status (after (startup 1 @ [AnimationFrame 1])) = DETECTING \<and>
   errorMessage (after (startup 1 @ [AnimationFrame 1])) = NoMessage"
  by (simp add: run_defs)

text \<open>
  C10, amended. A tick that passes the condition of line 47 and gets no drawing context
  from the canvas makes no detection call and publishes nothing; it schedules the
  next tick and leaves the status and the error message as they are. A tick that
  finds the source unreadable does the same (it is not fatal either); the failure of
  a detection call differs: it sets the status to \<open>ERROR\<close> and schedules nothing.
\<close>

theorem no_context_reschedules:
  assumes "readable s" and "\<not> context2d (canvas s)"
  shows "detectFace s = requestAnimationFrame s \<and>
    pending (detectFace s) = pending s @ [nextFrameId s] \<and>
    scheduled (log (detectFace s)) = scheduled (log s) @ [nextFrameId s] \<and>
    inflight (detectFace s) = inflight s \<and>
    detections (log (detectFace s)) = detections (log s) \<and>
    published (log (detectFace s)) = published (log s) \<and>
    hatPosition (detectFace s) = hatPosition s \<and>
    status (detectFace s) = status s \<and> errorMessage (detectFace s) = errorMessage s \<and>
    (\<not> readable t \<longrightarrow> detectFace t = requestAnimationFrame t) \<and>
    status (detectFace_resume Rejected s) = ERROR \<and>
    errorMessage (detectFace_resume Rejected s) = DetectionMessage \<and>
    scheduled (log (detectFace_resume Rejected s)) = scheduled (log s)"
  using assms
  by (simp add: detectFace_fields resume_Rejected_fields) (simp add: detectFace_def)

theorem no_context_reschedules_witness:
  "readable ((after (ContextChanged False # startup 4))\<lparr>pending := []\<rparr>) \<and>
   \<not> context2d (canvas ((after (ContextChanged False # startup 4))\<lparr>pending := []\<rparr>)) \<and>
   step (AnimationFrame 1) (after (ContextChanged False # startup 4)) =
     Some (detectFace ((after (ContextChanged False # startup 4))\<lparr>pending := []\<rparr>)) \<and>
   pending (detectFace ((after (ContextChanged False # startup 4))\<lparr>pending := []\<rparr>)) = [2] \<and>
   inflight (detectFace ((after (ContextChanged False # startup 4))\<lparr>pending := []\<rparr>)) = 0 \<and>
   status (detectFace ((after (ContextChanged False # startup 4))\<lparr>pending := []\<rparr>)) =
     DETECTING \<and>
   \<not> readable ((after (startup 1))\<lparr>pending := []\<rparr>) \<and>
   detectFace ((after (startup 1))\<lparr>pending := []\<rparr>) =
     requestAnimationFrame ((after (startup 1))\<lparr>pending := []\<rparr>) \<and>
   status (detectFace_resume Rejected
     ((after (ContextChanged False # startup 4))\<lparr>pending := []\<rparr>)) = ERROR"
proof -
  have h: "readable ((after (ContextChanged False # startup 4))\<lparr>pending := []\<rparr>)"
    "\<not> context2d (canvas ((after (ContextChanged False # startup 4))\<lparr>pending := []\<rparr>))"
    by (simp_all add: run_defs)
  have u: "\<not> readable ((after (startup 1))\<lparr>pending := []\<rparr>)"
    by (simp add: run_defs)
  have "pending (after (ContextChanged False # startup 4)) = [1]"
    "nextFrameId (after (ContextChanged False # startup 4)) = 2"
    "inflight (after (ContextChanged False # startup 4)) = 0"
    "status (after (ContextChanged False # startup 4)) = DETECTING"
    by (simp_all add: run_defs)
  with h u no_context_reschedules [OF h, of "(after (startup 1))\<lparr>pending := []\<rparr>"]
  show ?thesis
    by (simp add: requestAnimationFrame_fields)
qed

text \<open>
  C5, as the claim states it, fails: a tick that finds the video not readable (here
  \<open>readyState\<close> 1, metadata only) schedules the next tick, and the status stays
  \<open>DETECTING\<close>.
\<close>

theorem unreadable_source_not_fatal:
  "run (startup 1 @ [AnimationFrame 1]) initial \<noteq> None \<and>
   readyState (video (after (startup 1))) = 1 \<and>
   \<not> readable (after (startup 1)) \<and>
   pending (after (startup 1)) = [1] \<and>
   step (AnimationFrame 1) (after (startup 1)) = Some (after (startup 1 @ [AnimationFrame 1])) \<and>
   pending (after (startup 1 @ [AnimationFrame 1])) = [2] \<and>
   status (after (startup 1 @ [AnimationFrame 1])) = DETECTING \<and>
   errorMessage (after (startup 1 @ [AnimationFrame 1])) = NoMessage"
  by (simp add: run_defs)

text \<open>
  C5, amended. A tick that finds the frame source not readable (the video ref is
  \<open>null\<close>, or \<open>readyState\<close> is not 4) makes no detection call and publishes nothing;
  it schedules the next tick and leaves the status and the error message as they
  are: the loop polls until the source is readable.
\<close>

theorem unreadable_source_polls:
  assumes "\<not> videoRef s \<or> readyState (video s) \<noteq> 4"
  shows "detectFace s = requestAnimationFrame s \<and>
    pending (detectFace s) = pending s @ [nextFrameId s] \<and>
    scheduled (log (detectFace s)) = scheduled (log s) @ [nextFrameId s] \<and>
    inflight (detectFace s) = inflight s \<and>
    detections (log (detectFace s)) = detections (log s) \<and>
    published (log (detectFace s)) = published (log s) \<and>
    hatPosition (detectFace s) = hatPosition s \<and>
    status (detectFace s) = status s \<and> errorMessage (detectFace s) = errorMessage s"
proof -
  from assms have "\<not> readable s" by (auto simp: readable_def)
  then show ?thesis by (simp add: detectFace_fields) (simp add: detectFace_def)
qed

theorem unreadable_source_polls_witness:
  "readyState (video ((after (startup 1))\<lparr>pending := []\<rparr>)) = 1 \<and>
   step (AnimationFrame 1) (after (startup 1)) =
     Some (detectFace ((after (startup 1))\<lparr>pending := []\<rparr>)) \<and>
   pending (detectFace ((after (startup 1))\<lparr>pending := []\<rparr>)) = [2] \<and>
   inflight (detectFace ((after (startup 1))\<lparr>pending := []\<rparr>)) = 0 \<and>
   status (detectFace ((after (startup 1))\<lparr>pending := []\<rparr>)) = DETECTING"
proof -
  have h: "\<not> videoRef ((after (startup 1))\<lparr>pending := []\<rparr>) \<or>
    readyState (video ((after (startup 1))\<lparr>pending := []\<rparr>)) \<noteq> 4"
    by (simp add: run_defs)
  have "pending (after (startup 1)) = [1]" "nextFrameId (after (startup 1)) = 2"
    "inflight (after (startup 1)) = 0" "status (after (startup 1)) = DETECTING"
    "readyState (video (after (startup 1))) = 1"
    by (simp_all add: run_defs)
  with h unreadable_source_polls [OF h] show ?thesis
    by (simp add: requestAnimationFrame_fields)
qed

text \<open>
  C6, on the code: the component is unmounted while the first detection call is
  open. The cleanup finds no tick to cancel; when the call resolves with a face,
  \<open>detectFace\<close> goes on: it publishes the placement and schedules the next tick.
\<close>

theorem teardown_in_flight_resumes:
  "run (startup 4 @ [Unmount, EstimateFacesResolved [sample_face]]) initial \<noteq> None \<and>
   unmounted (after (startup 4 @ [Unmount])) \<and>
   inflight (after (startup 4 @ [Unmount])) = 1 \<and>
   pending (after (startup 4 @ [Unmount])) = [] \<and>
   published (log (after (startup 4 @ [Unmount]))) = [] \<and>
   published (log (after (startup 4 @ [Unmount, EstimateFacesResolved [sample_face]]))) =
     [\<lparr> hat_top = Finite 25, hat_left = Finite 100, hat_width = Finite 150,
        hat_height = Finite 150, hat_transform = ''translate(-50%, -90%) rotate(-10deg)'',
        hat_display = DisplayBlock \<rparr>] \<and>
   scheduled (log (after (startup 4 @ [Unmount, EstimateFacesResolved [sample_face]]))) = [1] \<and>
   pending (after (startup 4 @ [Unmount, EstimateFacesResolved [sample_face]])) = [1]"
  by (simp add: run_defs del: dadd.simps dmul.simps ddiv.simps)

text \<open>
  C7. In every state a run can reach, once \<open>getUserMedia\<close> is rejected the status is
  \<open>ERROR\<close> with the webcam message, and whatever happens afterwards it stays so:
  the detector is never created (\<open>createDetector\<close> is not even called), no tick is
  ever scheduled and no detection call is ever made.
\<close>

theorem acquisition_failure_never_starts:
  assumes "run evs initial = Some s" and "step GetUserMediaRejected s = Some s1"
    and "run evs' s1 = Some s2"
  shows "status s1 = ERROR \<and> errorMessage s1 = WebcamMessage \<and>
    status s2 = ERROR \<and> errorMessage s2 = WebcamMessage \<and>
    \<not> detectorRef s2 \<and> count_list (log s2) CreateDetector = 0 \<and>
    scheduled (log s2) = [] \<and> pending s2 = [] \<and> inflight s2 = 0 \<and>
    detections (log s2) = 0"
proof -
  from assms(1) have inv: "init_ok s" by (rule reachable)
  from assms(2) have phase: "initPhase s = AwaitGetUserMedia"
    and s1: "s1 = getUserMedia_rejected s"
    by (simp_all split: if_splits)
  from inv phase have "loading s" and "count_list (log s) CreateDetector = 0"
    by (simp_all add: init_ok_def)
  then have first: "halted s1 \<and> errorMessage s1 = WebcamMessage \<and> \<not> detectorRef s1 \<and>
    count_list (log s1) CreateDetector = 0 \<and> scheduled (log s1) = [] \<and>
    detections (log s1) = 0"
    by (simp add: s1 halted_def loading_def getUserMedia_rejected_fields)
  then have "halted s1" by simp
  with assms(3) have "halted s2 \<and> errorMessage s2 = errorMessage s1 \<and>
    detectorRef s2 = detectorRef s1 \<and> detections (log s2) = detections (log s1) \<and>
    scheduled (log s2) = scheduled (log s1) \<and> published (log s2) = published (log s1) \<and>
    count_list (log s2) CreateDetector = count_list (log s1) CreateDetector"
    by (rule halted_run)
  with first show ?thesis by (simp add: halted_def)
qed

theorem acquisition_failure_never_starts_witness:
  "run [Mount] initial = Some (after [Mount]) \<and>
   step GetUserMediaRejected (after [Mount]) = Some (after [Mount, GetUserMediaRejected]) \<and>
   run [ClickStart, Unmount] (after [Mount, GetUserMediaRejected]) =
     Some (after [Mount, GetUserMediaRejected, ClickStart, Unmount]) \<and>
   status (after [Mount, GetUserMediaRejected, ClickStart, Unmount]) = ERROR \<and>
   errorMessage (after [Mount, GetUserMediaRejected, ClickStart, Unmount]) = WebcamMessage \<and>
   \<not> detectorRef (after [Mount, GetUserMediaRejected, ClickStart, Unmount]) \<and>
   detections (log (after [Mount, GetUserMediaRejected, ClickStart, Unmount])) = 0"
  using acquisition_failure_never_starts [OF sample_runs(5) sample_runs(6) sample_runs(7)]
    sample_runs
  by simp

text \<open>
  C8, on the code: the component is tracking, with a tick scheduled, when it is
  unmounted; React sets the refs of the video and the canvas to \<open>null\<close> and then runs
  the cleanup of the effect. The cleanup cancels the scheduled tick, and its guard
  \<open>videoRef.current && videoRef.current.srcObject\<close> is false, so it stops no
  track: the loop is stopped (nothing is scheduled, no call is open) and the camera
  track is still live, with no \<open>track.stop()\<close> in the log.
\<close>

theorem teardown_leaves_track_live:
  "run (startup 4 @ [EstimateFacesResolved [], DetachRefs, Unmount]) initial \<noteq> None \<and>
   pending (after (startup 4 @ [EstimateFacesResolved []])) = [1] \<and>
   srcObject (video (after (startup 4 @ [EstimateFacesResolved []]))) = Some [True] \<and>
   \<not> videoRef (after (startup 4 @ [EstimateFacesResolved [], DetachRefs])) \<and>
   unmounted (after (startup 4 @ [EstimateFacesResolved [], DetachRefs, Unmount])) \<and>
   pending (after (startup 4 @ [EstimateFacesResolved [], DetachRefs, Unmount])) = [] \<and>
   inflight (after (startup 4 @ [EstimateFacesResolved [], DetachRefs, Unmount])) = 0 \<and>
   srcObject (video (after (startup 4 @ [EstimateFacesResolved [], DetachRefs, Unmount]))) =
     Some [True] \<and>
   stops (log (after (startup 4 @ [EstimateFacesResolved [], DetachRefs, Unmount]))) = []"
  by (simp add: run_defs)

text \<open>
  Two more runs that end with the loop stopped and the camera track live: the
  component is unmounted while \<open>getUserMedia\<close> is pending, and the stream arrives
  afterwards; and a detection call fails (the \<open>catch\<close> of lines 94 to 102 stops the loop
  and does not touch the stream).
\<close>

lemma more_live_tracks:
  "run [Mount, Unmount, GetUserMediaResolved [True]] initial \<noteq> None \<and>
   unmounted (after [Mount, Unmount, GetUserMediaResolved [True]]) \<and>
   srcObject (video (after [Mount, Unmount, GetUserMediaResolved [True]])) = Some [True] \<and>
   stops (log (after [Mount, Unmount, GetUserMediaResolved [True]])) = [] \<and>
   run (startup 4 @ [EstimateFacesRejected]) initial \<noteq> None \<and>
   status (after (startup 4 @ [EstimateFacesRejected])) = ERROR \<and>
   pending (after (startup 4 @ [EstimateFacesRejected])) = [] \<and>
   inflight (after (startup 4 @ [EstimateFacesRejected])) = 0 \<and>
   srcObject (video (after (startup 4 @ [EstimateFacesRejected]))) = Some [True] \<and>
   stops (log (after (startup 4 @ [EstimateFacesRejected]))) = []"
  by (simp add: run_defs)

text \<open>
  What the cleanup does where the video ref is still attached and the video has a
  stream: in every state a run can reach, it leaves no tick scheduled and stops every
  track of the stream, each exactly once; and whatever happens afterwards, every
  track stays ended and no track is stopped again.
\<close>

lemma teardown_with_ref_releases:
  assumes "run evs initial = Some s" and "step Unmount s = Some s1"
    and "videoRef s" and "srcObject (video s) = Some tracks"
    and "run evs' s1 = Some s2"
  shows "pending s1 = [] \<and>
    srcObject (video s1) = Some (map (\<lambda>_. False) tracks) \<and>
    stops (log s1) = [0..<length tracks] \<and>
    srcObject (video s2) = Some (map (\<lambda>_. False) tracks) \<and>
    stops (log s2) = [0..<length tracks]"
proof -
  from assms(1) have inv: "one_tick s" "log_ok s" "init_ok s" by (rule reachable)+
  from assms(2) have mounted: "isMounted s" and s1: "s1 = cleanup (s\<lparr>unmounted := True\<rparr>)"
    by (simp_all split: if_splits)
  from inv(1) have "list_all (\<lambda>i. i \<noteq> 0 \<and> animationFrameId s = Some i) (pending s)"
    by (simp add: one_tick_def)
  then have "pending (cancelCurrent (s\<lparr>unmounted := True\<rparr>)) = []"
    by (simp add: cancelCurrent_pending)
  then have p: "pending s1 = []" by (simp add: s1 cleanup_pending)
  from inv(2) mounted have "stops (log s) = []" by (simp add: log_ok_def isMounted_def)
  with assms(3,4) have st: "stops (log s1) = [0..<length tracks]"
    by (simp add: s1 cleanup_fields)
  from assms(3,4) have v: "srcObject (video s1) = Some (map (\<lambda>_. False) tracks)"
    by (simp add: s1 cleanup_video)
  from inv(3) assms(4) have "initPhase s \<noteq> NotMounted \<and> initPhase s \<noteq> AwaitGetUserMedia"
    by (auto simp: init_ok_def)
  then have "initPhase s1 \<noteq> NotMounted \<and> initPhase s1 \<noteq> AwaitGetUserMedia"
    and "unmounted s1"
    by (simp_all add: s1 cleanup_fields)
  with assms(5)
  have "stops (log s2) = stops (log s1) \<and> srcObject (video s2) = srcObject (video s1)"
    by (simp add: torn_down_run)
  with p st v show ?thesis by simp
qed

end
